theory Spec2Isabelle
  imports Complex_Main
begin

section \<open>Data model of the chat component (PropertyManagerChat.tsx)\<close>

text \<open>
  Strings are lists of code units. Structured values that the controller only passes
  through (function-call arguments, ERP records) are association lists of strings.
  An optional field of a TypeScript interface is an \<open>option\<close>.
\<close>

type_synonym json_object = "(string \<times> string) list"

datatype role = User | Model

record FunctionCall =
  fc_name :: string
  fc_args :: json_object

record SearchResult =
  records :: "json_object list"
  totalCount :: int
  processingTimeMs :: int

record FunctionResponseBody =
  instruction :: string
  fr_records :: "json_object list"
  fr_totalCount :: int
  fr_processingTimeMs :: int

record FunctionResponse =
  fr_name :: string
  response :: FunctionResponseBody

text \<open>
  A \<open>Part\<close> of the SDK is probed by optional fields in the source (\<open>part.functionCall\<close>,
  \<open>parts[0].text\<close>), so it is a record of optional fields rather than a tagged union.
\<close>

record Part =
  part_text :: "string option"
  functionCall :: "FunctionCall option"
  functionResponse :: "FunctionResponse option"

record CitationSource =
  startIndex :: "int option"
  endIndex :: "int option"
  uri :: "string option"
  title :: "string option"

record CitationMetadata =
  citationSources :: "CitationSource list option"

record Message =
  msg_role :: role
  msg_parts :: "Part list"
  msg_citationMetadata :: "CitationMetadata option"

definition text_part :: "string \<Rightarrow> Part" where
  "text_part t = \<lparr>part_text = Some t, functionCall = None, functionResponse = None\<rparr>"

subsection \<open>String helpers of the host language\<close>

text \<open>
  \<open>String.prototype.trim\<close> removes white space and line terminators from both ends.
  Among the code units below 256 these are TAB, LF, VT, FF, CR, SPACE and NBSP.
\<close>

definition is_white_space :: "char \<Rightarrow> bool" where
  "is_white_space c = (of_char c \<in> {9, 10, 11, 12, 13, 32, 160 :: nat})"

definition trim :: "string \<Rightarrow> string" where
  "trim s = rev (dropWhile is_white_space (rev (dropWhile is_white_space s)))"

text \<open>A string is truthy when it is not empty; an absent optional string is falsy.\<close>

definition truthy :: "string option \<Rightarrow> bool" where
  "truthy v = (case v of None \<Rightarrow> False | Some s \<Rightarrow> s \<noteq> [])"

text \<open>Decimal rendering of a number inside a template literal.\<close>

definition digit_char :: "nat \<Rightarrow> char" where
  "digit_char d = char_of (48 + d)"

fun show_nat :: "nat \<Rightarrow> string" where
  "show_nat n = (if n < 10 then [digit_char n] else show_nat (n div 10) @ [digit_char (n mod 10)])"

declare show_nat.simps [simp del]

section \<open>processTextWithCitations (lines 80-98)\<close>

text \<open>
  The loop state of the \<open>forEach\<close>: the set \<open>uniqueUris\<close> (kept as a list, only
  membership is read), the counter \<open>sourceNumber\<close> and the output array.
\<close>

record citation_loop =
  uniqueUris :: "string list"
  sourceNumber :: nat
  formattedSources :: "string list"

definition linkDescription :: "CitationSource \<Rightarrow> string \<Rightarrow> string" where
  "linkDescription source u =
     (case title source of
        None \<Rightarrow> u
      | Some t \<Rightarrow> if t \<noteq> [] \<and> trim t \<noteq> [] then t else u)"

definition format_source :: "nat \<Rightarrow> string \<Rightarrow> string \<Rightarrow> string" where
  "format_source n description u =
     ''[Source '' @ show_nat n @ '': '' @ description @ ''](''  @ u @ '')''"

definition citation_step :: "citation_loop \<Rightarrow> CitationSource \<Rightarrow> citation_loop" where
  "citation_step st source =
     (case uri source of
        None \<Rightarrow> st
      | Some u \<Rightarrow>
          if u \<noteq> [] \<and> u \<notin> set (uniqueUris st)
          then \<lparr>uniqueUris = uniqueUris st @ [u],
                sourceNumber = sourceNumber st + 1,
                formattedSources =
                  formattedSources st @ [format_source (sourceNumber st) (linkDescription source u) u]\<rparr>
          else st)"

definition citation_init :: citation_loop where
  "citation_init = \<lparr>uniqueUris = [], sourceNumber = 1, formattedSources = []\<rparr>"

record citation_output =
  originalText :: string
  out_formattedSources :: "string list"

definition processTextWithCitations :: "string \<Rightarrow> CitationSource list option \<Rightarrow> citation_output" where
  "processTextWithCitations text_in sources =
     \<lparr>originalText = text_in,
      out_formattedSources =
        (case sources of
           None \<Rightarrow> []
         | Some ss \<Rightarrow>
             if length ss > 0 then formattedSources (foldl citation_step citation_init ss) else [])\<rparr>"

subsection \<open>The citation rule in the words of the specification\<close>

text \<open>
  A source is surfaced when it carries a URI and no earlier source of the list carries
  the same URI. \<open>first_by_uri_rev\<close> reads the list backwards, so that "earlier" is the
  tail of its argument.
\<close>

fun first_by_uri_rev :: "CitationSource list \<Rightarrow> CitationSource list" where
  "first_by_uri_rev [] = []"
| "first_by_uri_rev (s # earlier) =
     (if truthy (uri s) \<and> uri s \<notin> set (map uri earlier) then [s] else []) @ first_by_uri_rev earlier"

definition dedup_first_by_uri :: "CitationSource list \<Rightarrow> CitationSource list" where
  "dedup_first_by_uri ss = rev (first_by_uri_rev (rev ss))"

definition source_label :: "CitationSource \<Rightarrow> string" where
  "source_label s =
     (case title s of
        Some t \<Rightarrow> if trim t \<noteq> [] then t else the (uri s)
      | None \<Rightarrow> the (uri s))"

definition render_source :: "nat \<times> CitationSource \<Rightarrow> string" where
  "render_source p = format_source (fst p) (source_label (snd p)) (the (uri (snd p)))"

definition spec_formattedSources :: "CitationSource list \<Rightarrow> string list" where
  "spec_formattedSources ss = map render_source (enumerate 1 (dedup_first_by_uri ss))"

definition example_sources :: "CitationSource list" where
  "example_sources =
     [\<lparr>startIndex = None, endIndex = None, uri = Some ''a'', title = Some ''X''\<rparr>,
      \<lparr>startIndex = None, endIndex = None, uri = Some ''a'', title = Some ''Y''\<rparr>,
      \<lparr>startIndex = None, endIndex = None, uri = Some ''b'', title = None\<rparr>]"


section \<open>Collaborators, thrown values and effects\<close>

text \<open>
  A thrown value is an \<open>Error\<close> object (of some class, with a message) or any other
  value: the handlers of the source test \<open>instanceof Error\<close>.
\<close>

datatype thrown = Error string | TypeError string | ReferenceError string | NonError string

fun instanceof_Error :: "thrown \<Rightarrow> bool" where
  "instanceof_Error (NonError v) = False"
| "instanceof_Error e = True"

fun message :: "thrown \<Rightarrow> string" where
  "message (Error m) = m"
| "message (TypeError m) = m"
| "message (ReferenceError m) = m"
| "message (NonError v) = []"

record ChatSession =
  fullContext :: string
  documentsUsed :: "string list"

record AuthUser =
  uid :: string
  email :: "string option"

record Content =
  c_role :: role
  c_parts :: "Part list"

record CandidateContent =
  cc_parts :: "Part list option"

record Candidate =
  content :: "CandidateContent option"
  citationMetadata :: "CitationMetadata option"

record GenerateContentResponse =
  candidates :: "Candidate list option"

record GenerateContentResult =
  result_response :: "GenerateContentResponse option"

text \<open>
  The function declaration \<open>searchERPFunction\<close> (lines 27-55): its name, its description
  and the names and types of its parameters (the per-parameter descriptions are left out).
\<close>

record FunctionDeclaration =
  fd_name :: string
  fd_description :: string
  fd_properties :: "(string \<times> string) list"

record Tool =
  functionDeclarations :: "FunctionDeclaration list"

record GenerativeModel =
  gm_model :: string
  gm_temperature :: rat
  gm_tools :: "Tool list"

definition searchERPFunction :: FunctionDeclaration where
  "searchERPFunction =
     \<lparr>fd_name = ''search_purchase_orders'',
      fd_description = ''Search and DISPLAY purchase order data for property management. ALWAYS show the actual data found to the user in a clear, formatted way. Include specific details like supplier names, products, prices, dates, and quantities from the results.'',
      fd_properties =
        [(''supplierName'', ''string''), (''productDescription'', ''string''),
         (''dateFrom'', ''string''), (''dateTo'', ''string''), (''buyerName'', ''string'')]\<rparr>"

record FunctionOutputs =
  fo_totalRecords :: int
  fo_processingTimeMs :: int
  fo_hasData :: bool
  fo_recordsPreview :: "json_object list"

text \<open>The object literal handed to \<open>addTechnicalLog\<close>; a key the literal does not set is \<open>None\<close>.\<close>

record TechnicalLog =
  log_event :: string
  log_userMessage :: "string option"
  log_functionName :: "string option"
  log_functionInputs :: "json_object option"
  log_functionOutputs :: "FunctionOutputs option"
  log_aiResponse :: "string option"
  log_errorMessage :: "string option"
  log_aiRequestId :: "string option"

definition empty_log :: "string \<Rightarrow> TechnicalLog" where
  "empty_log ev =
     \<lparr>log_event = ev, log_userMessage = None, log_functionName = None, log_functionInputs = None,
      log_functionOutputs = None, log_aiResponse = None, log_errorMessage = None,
      log_aiRequestId = None\<rparr>"

text \<open>
  The collaborators are code outside the component (the model SDK, \<open>erpApiService\<close>,
  \<open>firestoreService\<close>, \<open>sessionService\<close>). Each is a parameter: a function from the
  arguments of the call to its outcome, a rejection (\<open>Inl\<close>) or a value. \<open>random_id\<close> is the
  value of \<open>Math.random().toString(36).substring(2, 8)\<close>, \<open>geminiModel\<close> the module constant.
\<close>

record collaborators =
  generateContent :: "GenerativeModel \<Rightarrow> Content list \<Rightarrow> thrown + GenerateContentResult"
  searchRecords :: "string \<Rightarrow> json_object \<Rightarrow> thrown + SearchResult"
  addTechnicalLog :: "string \<Rightarrow> TechnicalLog \<Rightarrow> thrown + unit"
  createContinuousImprovementSession :: "string \<Rightarrow> string \<Rightarrow> string \<Rightarrow> string \<Rightarrow> thrown + string"
  loadLatestPrompt :: "string \<Rightarrow> string \<Rightarrow> thrown + string option"
  initializeChatSession :: "string \<Rightarrow> string \<Rightarrow> thrown + ChatSession"
  random_id :: string
  geminiModel :: string

text \<open>
  The values a render of the component closes over: the \<open>useState\<close> cells and the values
  of the \<open>useAuth\<close> and \<open>useWorkspace\<close> hooks. A handler reads the values of the render
  that created it, also after an \<open>await\<close>.
\<close>

record render =
  messages :: "Message list"
  input :: string
  isLoading :: bool
  sessionActive :: bool
  chatSession :: "ChatSession option"
  sessionInitializing :: bool
  continuousImprovementSessionId :: "string option"
  chatSessionKey :: string
  currentPromptKey :: "string option"
  user :: "AuthUser option"
  currentWorkspace :: string

text \<open>
  What a handler does to the world, in order: state setters (\<open>AppendMessage m\<close> is
  \<open>setMessages(prev => [...prev, m])\<close>, \<open>ClearMessages\<close> is \<open>setMessages([])\<close>) and
  calls of collaborators with their arguments. Console output is not recorded.
\<close>

datatype effect =
    AppendMessage Message
  | ClearMessages
  | SetInput string
  | SetIsLoading bool
  | SetSessionActive bool
  | SetChatSession "ChatSession option"
  | SetSessionInitializing bool
  | SetContinuousImprovementSessionId string
  | Toast string
  | Call_createContinuousImprovementSession string string string string
  | Call_addTechnicalLog string TechnicalLog
  | Call_loadLatestPrompt string string
  | Call_generateContent GenerativeModel "Content list"
  | Call_searchRecords string json_object
  | Call_initializeChatSession string string

fun apply_effect :: "effect \<Rightarrow> render \<Rightarrow> render" where
  "apply_effect (AppendMessage m) s = s\<lparr>messages := messages s @ [m]\<rparr>"
| "apply_effect ClearMessages s = s\<lparr>messages := []\<rparr>"
| "apply_effect (SetInput v) s = s\<lparr>input := v\<rparr>"
| "apply_effect (SetIsLoading b) s = s\<lparr>isLoading := b\<rparr>"
| "apply_effect (SetSessionActive b) s = s\<lparr>sessionActive := b\<rparr>"
| "apply_effect (SetChatSession v) s = s\<lparr>chatSession := v\<rparr>"
| "apply_effect (SetSessionInitializing b) s = s\<lparr>sessionInitializing := b\<rparr>"
| "apply_effect (SetContinuousImprovementSessionId v) s = s\<lparr>continuousImprovementSessionId := Some v\<rparr>"
| "apply_effect _ s = s"

definition run :: "effect list \<Rightarrow> render \<Rightarrow> render" where
  "run es s = fold apply_effect es s"

subsection \<open>Asynchronous code as a computation: the effects so far and the outcome\<close>

type_synonym 'a comp = "effect list \<times> (thrown + 'a)"

definition ret :: "'a \<Rightarrow> 'a comp" where
  "ret a = ([], Inr a)"

definition throw :: "thrown \<Rightarrow> 'a comp" where
  "throw e = ([], Inl e)"

definition emit :: "effect list \<Rightarrow> unit comp" where
  "emit es = (es, Inr ())"

definition await_call :: "effect \<Rightarrow> thrown + 'a \<Rightarrow> 'a comp" where
  "await_call e outcome = ([e], outcome)"

definition and_then :: "'a comp \<Rightarrow> ('a \<Rightarrow> 'b comp) \<Rightarrow> 'b comp" where
  "and_then m f =
     (case snd m of
        Inl e \<Rightarrow> (fst m, Inl e)
      | Inr a \<Rightarrow> (fst m @ fst (f a), snd (f a)))"

definition try_catch :: "'a comp \<Rightarrow> (thrown \<Rightarrow> 'a comp) \<Rightarrow> 'a comp" where
  "try_catch m handler =
     (case snd m of
        Inl e \<Rightarrow> (fst m @ fst (handler e), snd (handler e))
      | Inr a \<Rightarrow> m)"

definition try_finally :: "'a comp \<Rightarrow> effect list \<Rightarrow> 'a comp" where
  "try_finally m es = (fst m @ es, snd m)"


section \<open>The turn controller: handleSendMessage (lines 212-467)\<close>

definition userMessage_of :: "string \<Rightarrow> Message" where
  "userMessage_of textToSend =
     \<lparr>msg_role = User, msg_parts = [text_part textToSend], msg_citationMetadata = None\<rparr>"

definition model_turn :: "Part list \<Rightarrow> CitationMetadata option \<Rightarrow> Message" where
  "model_turn ps md = \<lparr>msg_role = Model, msg_parts = ps, msg_citationMetadata = md\<rparr>"

definition generic_error_turn :: Message where
  "generic_error_turn =
     model_turn [text_part ''Error processing your request. Please try again.''] None"

definition function_error_text :: "thrown \<Rightarrow> string" where
  "function_error_text functionError =
     ''I tried to search your ERP data but encountered an error: ''
     @ (if instanceof_Error functionError then message functionError else ''Unknown error'')
     @ ''. Please make sure you have uploaded your ERP data in the Admin panel.''"

text \<open>\<open>initializeContinuousImprovement\<close> (lines 507-520): it catches its own failures.\<close>

definition default_promptKey :: "AuthUser \<Rightarrow> string" where
  "default_promptKey u =
     (let local_part = (case email u of None \<Rightarrow> [] | Some e \<Rightarrow> takeWhile (\<lambda>ch. ch \<noteq> CHR ''@'') e)
      in (if local_part \<noteq> [] then local_part else ''user'') @ ''_v1'')"

definition initializeContinuousImprovement :: "collaborators \<Rightarrow> render \<Rightarrow> unit comp" where
  "initializeContinuousImprovement env c =
     (case user c of
        None \<Rightarrow> ret ()
      | Some u \<Rightarrow>
          if truthy (continuousImprovementSessionId c) then ret ()
          else try_catch
            (let promptKey = (if truthy (currentPromptKey c) then the (currentPromptKey c)
                              else default_promptKey u)
             in and_then
                  (await_call
                     (Call_createContinuousImprovementSession promptKey (chatSessionKey c) (uid u)
                        (currentWorkspace c))
                     (createContinuousImprovementSession env promptKey (chatSessionKey c) (uid u)
                        (currentWorkspace c)))
                  (\<lambda>sessionId. emit [SetContinuousImprovementSessionId sessionId]))
            (\<lambda>error. ret ()))"

text \<open>
  \<open>if (continuousImprovementSessionId) await addTechnicalLog(...)\<close>: the identifier is the
  value of the render that created the handler. The write is awaited where it stands.
\<close>

definition log_if_session :: "collaborators \<Rightarrow> render \<Rightarrow> TechnicalLog \<Rightarrow> unit comp" where
  "log_if_session env c entry =
     (if truthy (continuousImprovementSessionId c)
      then await_call (Call_addTechnicalLog (the (continuousImprovementSessionId c)) entry)
             (addTechnicalLog env (the (continuousImprovementSessionId c)) entry)
      else ret ())"

text \<open>Lines 236-258: the system prompt of the session, or the stored prompt, or a throw.\<close>

definition resolve_systemPrompt :: "collaborators \<Rightarrow> render \<Rightarrow> string comp" where
  "resolve_systemPrompt env c =
     (case chatSession c of
        Some session \<Rightarrow> ret (fullContext session)
      | None \<Rightarrow>
          and_then
            (case user c of
               None \<Rightarrow> ret []
             | Some u \<Rightarrow>
                 if uid u \<noteq> []
                 then try_catch
                        (and_then
                           (await_call (Call_loadLatestPrompt (uid u) (currentWorkspace c))
                              (loadLatestPrompt env (uid u) (currentWorkspace c)))
                           (\<lambda>latestPrompt. ret (if truthy latestPrompt then the latestPrompt else [])))
                        (\<lambda>error. ret [])
                 else ret [])
            (\<lambda>systemPrompt.
               if systemPrompt = []
               then throw (Error ''No system prompt configured. Please visit Admin panel to set up your prompt.'')
               else ret systemPrompt))"

text \<open>Lines 260-266: one model handle per turn, configured with the tool.\<close>

definition chat_model :: "collaborators \<Rightarrow> GenerativeModel" where
  "chat_model env =
     \<lparr>gm_model = geminiModel env, gm_temperature = 2 / 10,
      gm_tools = [\<lparr>functionDeclarations = [searchERPFunction]\<rparr>]\<rparr>"

definition history_of :: "Message list \<Rightarrow> Content list" where
  "history_of ms = map (\<lambda>msg. \<lparr>c_role = msg_role msg, c_parts = msg_parts msg\<rparr>) ms"

definition first_contents :: "string \<Rightarrow> Content list \<Rightarrow> string \<Rightarrow> Content list" where
  "first_contents systemPrompt history textToSend =
     [\<lparr>c_role = User, c_parts = [text_part systemPrompt]\<rparr>] @ history
     @ [\<lparr>c_role = User, c_parts = [text_part textToSend]\<rparr>]"

definition functionResponse_turn :: "string \<Rightarrow> SearchResult \<Rightarrow> Content" where
  "functionResponse_turn functionName searchResult =
     \<lparr>c_role = Model,
      c_parts =
        [\<lparr>part_text = None, functionCall = None,
          functionResponse = Some
            \<lparr>fr_name = functionName,
             response =
               \<lparr>instruction = ''IMPORTANT: Present this data to the user in a clear, formatted way. Show specific details from each record including supplier names, products, prices, and dates. Do not just say you are 'checking' - show the actual results found.'',
                fr_records = records searchResult,
                fr_totalCount = totalCount searchResult,
                fr_processingTimeMs = processingTimeMs searchResult\<rparr>\<rparr>\<rparr>]\<rparr>"

definition followUp_contents ::
  "string \<Rightarrow> Content list \<Rightarrow> string \<Rightarrow> Part \<Rightarrow> Content \<Rightarrow> Content list" where
  "followUp_contents systemPrompt history textToSend part functionResponse_msg =
     [\<lparr>c_role = User, c_parts = [text_part systemPrompt]\<rparr>] @ history
     @ [\<lparr>c_role = User, c_parts = [text_part textToSend]\<rparr>,
        \<lparr>c_role = Model, c_parts = [part]\<rparr>,
        functionResponse_msg]"

text \<open>\<open>response?.candidates?.[0]?.content\<close> and \<open>content?.parts?.[0]?.text || fallback\<close>.\<close>

definition first_candidate_content :: "GenerateContentResponse option \<Rightarrow> CandidateContent option" where
  "first_candidate_content resp =
     (case resp of
        None \<Rightarrow> None
      | Some r \<Rightarrow>
          (case candidates r of
             None \<Rightarrow> None
           | Some [] \<Rightarrow> None
           | Some (candidate # rest) \<Rightarrow> content candidate))"

definition first_text_or :: "CandidateContent option \<Rightarrow> string \<Rightarrow> string" where
  "first_text_or cont fallback =
     (case cont of
        None \<Rightarrow> fallback
      | Some ct \<Rightarrow>
          (case cc_parts ct of
             None \<Rightarrow> fallback
           | Some [] \<Rightarrow> fallback
           | Some (p # rest) \<Rightarrow> if truthy (part_text p) then the (part_text p) else fallback))"

definition parts_or :: "CandidateContent option \<Rightarrow> string \<Rightarrow> Part list" where
  "parts_or cont fallback =
     (case cont of
        None \<Rightarrow> [text_part fallback]
      | Some ct \<Rightarrow> (case cc_parts ct of None \<Rightarrow> [text_part fallback] | Some ps \<Rightarrow> ps))"

text \<open>
  Lines 290-401, the body of the inner \<open>try\<close>: telemetry, the search, telemetry, the
  follow-up call on the same \<open>model\<close> handle, and the final turn when the follow-up
  response has a first candidate with content. \<open>user!.uid\<close> throws a TypeError when
  \<open>user\<close> is null, before the search is called.
\<close>

definition function_round_trip ::
  "collaborators \<Rightarrow> render \<Rightarrow> string \<Rightarrow> string \<Rightarrow> Part \<Rightarrow> FunctionCall \<Rightarrow> unit comp" where
  "function_round_trip env c textToSend systemPrompt part fc =
     (let aiRequestId = random_id env;
          functionName = fc_name fc;
          functionArgs = fc_args fc
      in and_then
           (log_if_session env c
              ((empty_log ''function_call_triggered'')
                 \<lparr>log_userMessage := Some textToSend, log_functionName := Some functionName,
                  log_functionInputs := Some functionArgs, log_aiRequestId := Some aiRequestId\<rparr>))
        (\<lambda>_. and_then
           (case user c of
              None \<Rightarrow> throw (TypeError ''Cannot read properties of null (reading 'uid')'')
            | Some u \<Rightarrow>
                await_call (Call_searchRecords (uid u) functionArgs)
                  (searchRecords env (uid u) functionArgs))
        (\<lambda>searchResult. and_then
           (log_if_session env c
              ((empty_log ''function_call_success'')
                 \<lparr>log_functionName := Some functionName, log_functionInputs := Some functionArgs,
                  log_functionOutputs := Some
                    \<lparr>fo_totalRecords = totalCount searchResult,
                     fo_processingTimeMs = processingTimeMs searchResult,
                     fo_hasData = (length (records searchResult) > 0),
                     fo_recordsPreview = take 3 (records searchResult)\<rparr>,
                  log_aiRequestId := Some aiRequestId\<rparr>))
        (\<lambda>_. and_then
           (await_call
              (Call_generateContent (chat_model env)
                 (followUp_contents systemPrompt (history_of (messages c)) textToSend part
                    (functionResponse_turn functionName searchResult)))
              (generateContent env (chat_model env)
                 (followUp_contents systemPrompt (history_of (messages c)) textToSend part
                    (functionResponse_turn functionName searchResult))))
        (\<lambda>followUpResult.
           (case first_candidate_content (result_response followUpResult) of
              None \<Rightarrow> ret ()
            | Some ct \<Rightarrow>
                and_then
                  (log_if_session env c
                     ((empty_log ''ai_response'')
                        \<lparr>log_aiResponse := Some (take 500 (first_text_or (Some ct) ''No response text'')),
                         log_aiRequestId := Some aiRequestId\<rparr>))
                  (\<lambda>_. emit [AppendMessage
                     (model_turn
                        (parts_or (Some ct) ''I executed the search but couldn't format the response.'')
                        None)])))))))"

text \<open>
  Lines 402-430, the \<open>catch (functionError)\<close> clause. Its first statement evaluates the
  identifier \<open>aiRequestId\<close>. That name is declared by \<open>const\<close> inside the \<open>try\<close> block
  (line 291), a block scope that ends with the block; no enclosing scope of the clause
  (loop body, function body, component, module) declares it. Evaluating an undeclared
  identifier throws a ReferenceError, so the clause throws before anything else in it runs.
\<close>

definition aiRequestId_in_catch_clause :: "thrown + string" where
  "aiRequestId_in_catch_clause = Inl (ReferenceError ''aiRequestId is not defined'')"

definition catch_functionError ::
  "collaborators \<Rightarrow> render \<Rightarrow> FunctionCall \<Rightarrow> thrown \<Rightarrow> unit comp" where
  "catch_functionError env c fc functionError =
     and_then ([], aiRequestId_in_catch_clause)
       (\<lambda>aiRequestId. and_then
          (log_if_session env c
             ((empty_log ''function_call_error'')
                \<lparr>log_functionName := Some (fc_name fc), log_functionInputs := Some (fc_args fc),
                 log_errorMessage := Some
                   (if instanceof_Error functionError then message functionError else ''Unknown error''),
                 log_aiRequestId := Some aiRequestId\<rparr>))
          (\<lambda>_. emit [AppendMessage (model_turn [text_part (function_error_text functionError)] None)]))"

text \<open>Lines 290-430: the \<open>try\<close> statement of a recognized function call.\<close>

definition round_trip ::
  "collaborators \<Rightarrow> render \<Rightarrow> string \<Rightarrow> string \<Rightarrow> Part \<Rightarrow> FunctionCall \<Rightarrow> unit comp" where
  "round_trip env c textToSend systemPrompt part fc =
     try_catch (function_round_trip env c textToSend systemPrompt part fc)
       (catch_functionError env c fc)"

text \<open>
  Lines 284-433, the loop over the parts of the first candidate. Both the \<open>try\<close> block and
  the \<open>catch\<close> clause of a recognized call end in \<open>return\<close>: the result \<open>True\<close> says that
  the handler has returned from inside the loop, \<open>False\<close> that the loop ran to its end.
\<close>

fun scan_parts ::
  "collaborators \<Rightarrow> render \<Rightarrow> string \<Rightarrow> string \<Rightarrow> Part list \<Rightarrow> bool comp" where
  "scan_parts env c textToSend systemPrompt [] = ret False"
| "scan_parts env c textToSend systemPrompt (part # rest) =
     (case functionCall part of
        None \<Rightarrow> scan_parts env c textToSend systemPrompt rest
      | Some fc \<Rightarrow>
          if fc_name fc = ''search_purchase_orders''
          then and_then (round_trip env c textToSend systemPrompt part fc) (\<lambda>_. ret True)
          else scan_parts env c textToSend systemPrompt rest)"

text \<open>Lines 436-454: the plain response.\<close>

definition processedCitationMetadata_of :: "Candidate \<Rightarrow> CitationMetadata option" where
  "processedCitationMetadata_of candidate =
     (case citationMetadata candidate of
        None \<Rightarrow> None
      | Some md \<Rightarrow> (case citationSources md of None \<Rightarrow> None | Some srcs \<Rightarrow> Some md))"

definition plain_response :: "collaborators \<Rightarrow> render \<Rightarrow> Candidate \<Rightarrow> unit comp" where
  "plain_response env c candidate =
     (let processedCitationMetadata = processedCitationMetadata_of candidate
      in and_then
           (log_if_session env c
              ((empty_log ''ai_response'')
                 \<lparr>log_aiResponse := Some (take 500 (first_text_or (content candidate) ''No response text''))\<rparr>))
           (\<lambda>_. emit [AppendMessage
              (model_turn (parts_or (content candidate) ''I couldn't generate a response.'')
                 processedCitationMetadata)]))"

text \<open>Lines 277-457: what the turn does with the result of the first model call.\<close>

definition handle_response ::
  "collaborators \<Rightarrow> render \<Rightarrow> string \<Rightarrow> string \<Rightarrow> GenerateContentResult \<Rightarrow> unit comp" where
  "handle_response env c textToSend systemPrompt result =
     (case result_response result of
        None \<Rightarrow> throw (Error ''No response from AI model'')
      | Some resp \<Rightarrow>
          (case candidates resp of
             None \<Rightarrow> throw (Error ''No response from AI model'')
           | Some [] \<Rightarrow> throw (Error ''No response from AI model'')
           | Some (candidate # others) \<Rightarrow>
               and_then
                 (case content candidate of
                    None \<Rightarrow> ret False
                  | Some ct \<Rightarrow>
                      (case cc_parts ct of
                         None \<Rightarrow> ret False
                       | Some ps \<Rightarrow> scan_parts env c textToSend systemPrompt ps))
                 (\<lambda>returned. if returned then ret () else plain_response env c candidate)))"

text \<open>Lines 235-457, the body of the outer \<open>try\<close>.\<close>

definition turn_body :: "collaborators \<Rightarrow> render \<Rightarrow> string \<Rightarrow> unit comp" where
  "turn_body env c textToSend =
     and_then (resolve_systemPrompt env c)
       (\<lambda>systemPrompt. and_then
          (await_call
             (Call_generateContent (chat_model env)
                (first_contents systemPrompt (history_of (messages c)) textToSend))
             (generateContent env (chat_model env)
                (first_contents systemPrompt (history_of (messages c)) textToSend)))
          (handle_response env c textToSend systemPrompt))"

text \<open>Lines 234-466: the outer \<open>try\<close> statement with its \<open>catch\<close> and \<open>finally\<close> clauses.\<close>

definition guarded_body :: "collaborators \<Rightarrow> render \<Rightarrow> string \<Rightarrow> unit comp" where
  "guarded_body env c textToSend =
     try_finally
       (try_catch (turn_body env c textToSend) (\<lambda>error. emit [AppendMessage generic_error_turn]))
       [SetIsLoading False]"

text \<open>
  \<open>textToSend = messageText || input\<close>: an absent or empty argument falls back to the
  input box. The guard of line 214 returns before anything is done. The \<open>user_message\<close>
  write (lines 227-232) stands before the outer \<open>try\<close>.
\<close>

definition textToSend_of :: "render \<Rightarrow> string option \<Rightarrow> string" where
  "textToSend_of c messageText = (if truthy messageText then the messageText else input c)"

definition handleSendMessage :: "collaborators \<Rightarrow> render \<Rightarrow> string option \<Rightarrow> unit comp" where
  "handleSendMessage env c messageText =
     (let textToSend = textToSend_of c messageText
      in if trim textToSend = [] \<or> isLoading c then ret ()
         else and_then
           (if \<not> truthy (continuousImprovementSessionId c)
            then initializeContinuousImprovement env c else ret ())
         (\<lambda>_. and_then
           (emit ([AppendMessage (userMessage_of textToSend)]
                  @ (if \<not> truthy messageText then [SetInput []] else [])
                  @ [SetIsLoading True]))
         (\<lambda>_. and_then
           (log_if_session env c
              ((empty_log ''user_message'') \<lparr>log_userMessage := Some textToSend\<rparr>))
         (\<lambda>_. guarded_body env c textToSend))))"

text \<open>\<open>handleResetChat\<close> (lines 476-496).\<close>

definition handleResetChat :: "collaborators \<Rightarrow> render \<Rightarrow> unit comp" where
  "handleResetChat env c =
     and_then
       (emit [ClearMessages, SetSessionActive False, SetChatSession None, SetInput [],
              Toast ''Chat reset successfully''])
       (\<lambda>_. case user c of
          None \<Rightarrow> ret ()
        | Some u \<Rightarrow>
            and_then (emit [SetSessionInitializing True])
              (\<lambda>_. try_finally
                 (try_catch
                    (and_then
                       (await_call (Call_initializeChatSession (uid u) (currentWorkspace c))
                          (initializeChatSession env (uid u) (currentWorkspace c)))
                       (\<lambda>session. emit [SetChatSession (Some session),
                                         Toast ''Session refreshed with latest knowledge base'']))
                    (\<lambda>error. ret ()))
                 [SetSessionInitializing False]))"


section \<open>Observations on a trace of effects\<close>

fun appended :: "effect list \<Rightarrow> Message list" where
  "appended [] = []"
| "appended (AppendMessage m # es) = m # appended es"
| "appended (e # es) = appended es"

fun model_requests :: "effect list \<Rightarrow> (GenerativeModel \<times> Content list) list" where
  "model_requests [] = []"
| "model_requests (Call_generateContent m cs # es) = (m, cs) # model_requests es"
| "model_requests (e # es) = model_requests es"

fun search_calls :: "effect list \<Rightarrow> (string \<times> json_object) list" where
  "search_calls [] = []"
| "search_calls (Call_searchRecords u a # es) = (u, a) # search_calls es"
| "search_calls (e # es) = search_calls es"

fun telemetry_events :: "effect list \<Rightarrow> string list" where
  "telemetry_events [] = []"
| "telemetry_events (Call_addTechnicalLog sid entry # es) = log_event entry # telemetry_events es"
| "telemetry_events (e # es) = telemetry_events es"

definition model_invocations :: "effect list \<Rightarrow> nat" where
  "model_invocations es = length (model_requests es)"

definition search_invocations :: "effect list \<Rightarrow> nat" where
  "search_invocations es = length (search_calls es)"

text \<open>A quiet trace appends no turn, calls neither the model nor the search and clears nothing.\<close>

definition quiet :: "effect list \<Rightarrow> bool" where
  "quiet es \<longleftrightarrow>
     appended es = [] \<and> model_requests es = [] \<and> search_calls es = [] \<and> ClearMessages \<notin> set es"

text \<open>The part of a trace that the conversation consists of: appended turns and collaborator calls.\<close>

fun is_conversation :: "effect \<Rightarrow> bool" where
  "is_conversation (AppendMessage m) = True"
| "is_conversation (Call_generateContent m cs) = True"
| "is_conversation (Call_searchRecords u a) = True"
| "is_conversation e = False"

definition conversation :: "effect list \<Rightarrow> effect list" where
  "conversation es = filter is_conversation es"

text \<open>
  A handler is suspended at an \<open>await\<close>. \<open>until_model_call\<close> is what a turn has done when
  its first model call is in flight, \<open>after_model_call\<close> what it does once the call has
  resolved. \<open>reset_mid_flight\<close> runs the reset handler in between, on the state the component
  then has; the setters of the resumed turn act on the state they find.
\<close>

fun until_model_call :: "effect list \<Rightarrow> effect list" where
  "until_model_call [] = []"
| "until_model_call (Call_generateContent m cs # es) = [Call_generateContent m cs]"
| "until_model_call (e # es) = e # until_model_call es"

fun after_model_call :: "effect list \<Rightarrow> effect list" where
  "after_model_call [] = []"
| "after_model_call (Call_generateContent m cs # es) = es"
| "after_model_call (e # es) = after_model_call es"

text \<open>
  What a turn has done when its call of \<open>createContinuousImprovementSession\<close> (the
  \<open>await\<close> of line 218) is in flight.
\<close>

fun until_session_call :: "effect list \<Rightarrow> effect list" where
  "until_session_call [] = []"
| "until_session_call (Call_createContinuousImprovementSession k ck u w # es) =
     [Call_createContinuousImprovementSession k ck u w]"
| "until_session_call (e # es) = e # until_session_call es"

definition reset_mid_flight :: "collaborators \<Rightarrow> render \<Rightarrow> string option \<Rightarrow> render" where
  "reset_mid_flight env c messageText =
     (let turn = fst (handleSendMessage env c messageText)
      in run (after_model_call turn)
           (run (fst (handleResetChat env c))
              (run (until_model_call turn) c)))"

text \<open>The first recognized function call among the parts, as the loop of lines 284-433 finds it.\<close>

fun recognized_call :: "Part list \<Rightarrow> FunctionCall option" where
  "recognized_call [] = None"
| "recognized_call (part # rest) =
     (case functionCall part of
        None \<Rightarrow> recognized_call rest
      | Some fc \<Rightarrow> if fc_name fc = ''search_purchase_orders'' then Some fc else recognized_call rest)"

text \<open>The part that carries that call: the \<open>part\<close> of the loop when the call is recognized.\<close>

fun recognized_part :: "Part list \<Rightarrow> Part option" where
  "recognized_part [] = None"
| "recognized_part (part # rest) =
     (case functionCall part of
        None \<Rightarrow> recognized_part rest
      | Some fc \<Rightarrow> if fc_name fc = ''search_purchase_orders'' then Some part else recognized_part rest)"

definition first_candidate_parts :: "GenerateContentResult \<Rightarrow> Part list" where
  "first_candidate_parts result =
     (case first_candidate_content (result_response result) of
        None \<Rightarrow> []
      | Some ct \<Rightarrow> (case cc_parts ct of None \<Rightarrow> [] | Some ps \<Rightarrow> ps))"

text \<open>
  What an accepted turn does before its outer \<open>try\<close> statement (lines 216-232), and the
  outcome of the \<open>user_message\<close> write that ends it.
\<close>

definition prologue :: "collaborators \<Rightarrow> render \<Rightarrow> string option \<Rightarrow> effect list" where
  "prologue env c messageText =
     (if \<not> truthy (continuousImprovementSessionId c)
      then fst (initializeContinuousImprovement env c) else [])
     @ [AppendMessage (userMessage_of (textToSend_of c messageText))]
     @ (if \<not> truthy messageText then [SetInput []] else [])
     @ [SetIsLoading True]
     @ fst (log_if_session env c
              ((empty_log ''user_message'') \<lparr>log_userMessage := Some (textToSend_of c messageText)\<rparr>))"

definition user_message_log :: "collaborators \<Rightarrow> render \<Rightarrow> string option \<Rightarrow> thrown + unit" where
  "user_message_log env c messageText =
     snd (log_if_session env c
            ((empty_log ''user_message'') \<lparr>log_userMessage := Some (textToSend_of c messageText)\<rparr>))"

text \<open>
  The outcome of the first model call of a turn whose system prompt is \<open>systemPrompt\<close>, and
  the recognized function call that the controller finds in it, if any.
\<close>

definition first_outcome ::
  "collaborators \<Rightarrow> render \<Rightarrow> string \<Rightarrow> string \<Rightarrow> thrown + GenerateContentResult" where
  "first_outcome env c textToSend systemPrompt =
     generateContent env (chat_model env)
       (first_contents systemPrompt (history_of (messages c)) textToSend)"

definition recognized_in :: "thrown + GenerateContentResult \<Rightarrow> FunctionCall option" where
  "recognized_in outcome =
     (case outcome of Inl e \<Rightarrow> None | Inr result \<Rightarrow> recognized_call (first_candidate_parts result))"

definition first_candidate :: "GenerateContentResult \<Rightarrow> Candidate option" where
  "first_candidate result =
     (case result_response result of
        None \<Rightarrow> None
      | Some resp \<Rightarrow>
          (case candidates resp of
             None \<Rightarrow> None
           | Some [] \<Rightarrow> None
           | Some (candidate # others) \<Rightarrow> Some candidate))"

text \<open>
  Every telemetry write that the handler of this render can make resolves. A render without
  a telemetry session id makes none.
\<close>

definition telemetry_writes_succeed :: "collaborators \<Rightarrow> render \<Rightarrow> bool" where
  "telemetry_writes_succeed env c \<longleftrightarrow> (\<forall>entry. snd (log_if_session env c entry) = Inr ())"

definition succeeded :: "thrown + 'a \<Rightarrow> bool" where
  "succeeded outcome = (case outcome of Inl e \<Rightarrow> False | Inr v \<Rightarrow> True)"

definition search_tool :: Tool where
  "search_tool = \<lparr>functionDeclarations = [searchERPFunction]\<rparr>"

section \<open>Concrete collaborators and renders\<close>

definition demo_user :: AuthUser where
  "demo_user = \<lparr>uid = ''u1'', email = Some ''erika@example.com''\<rparr>"

definition demo_session :: ChatSession where
  "demo_session = \<lparr>fullContext = ''You are a procurement assistant.'', documentsUsed = []\<rparr>"

definition demo_render :: render where
  "demo_render =
     \<lparr>messages = [model_turn [text_part ''How can I help you today?''] None],
      input = ''Find Huolto-Karhu orders'',
      isLoading = False, sessionActive = True, chatSession = Some demo_session,
      sessionInitializing = False, continuousImprovementSessionId = Some ''ci1'',
      chatSessionKey = ''chat_1'', currentPromptKey = None, user = Some demo_user,
      currentWorkspace = ''purchaser''\<rparr>"

definition call_part :: "string \<Rightarrow> Part" where
  "call_part n =
     \<lparr>part_text = None,
      functionCall = Some \<lparr>fc_name = n, fc_args = [(''supplierName'', ''Huolto-Karhu'')]\<rparr>,
      functionResponse = None\<rparr>"

definition parts_result :: "Part list \<Rightarrow> GenerateContentResult" where
  "parts_result ps =
     \<lparr>result_response = Some
        \<lparr>candidates = Some [\<lparr>content = Some \<lparr>cc_parts = Some ps\<rparr>, citationMetadata = None\<rparr>]\<rparr>\<rparr>"

definition no_candidates_result :: GenerateContentResult where
  "no_candidates_result = \<lparr>result_response = Some \<lparr>candidates = Some []\<rparr>\<rparr>"

definition no_content_result :: GenerateContentResult where
  "no_content_result =
     \<lparr>result_response = Some \<lparr>candidates = Some [\<lparr>content = None, citationMetadata = None\<rparr>]\<rparr>\<rparr>"

definition three_records :: SearchResult where
  "three_records =
     \<lparr>records = [[(''Supplier'', ''Huolto-Karhu Oy'')], [(''Supplier'', ''Huolto-Karhu Oy'')],
                 [(''Supplier'', ''Huolto-Karhu Oy'')]],
      totalCount = 3, processingTimeMs = 12\<rparr>"

text \<open>A request is the follow-up of a round-trip when its last turn carries a function response.\<close>

definition is_followUp :: "Content list \<Rightarrow> bool" where
  "is_followUp cs =
     (case rev cs of
        [] \<Rightarrow> False
      | lst # before \<Rightarrow> (case c_parts lst of [] \<Rightarrow> False | p # ps \<Rightarrow> functionResponse p \<noteq> None))"

definition scripted ::
  "(thrown + GenerateContentResult) \<Rightarrow> (thrown + GenerateContentResult) \<Rightarrow> (thrown + SearchResult)
   \<Rightarrow> (TechnicalLog \<Rightarrow> thrown + unit) \<Rightarrow> (thrown + string option) \<Rightarrow> collaborators" where
  "scripted first_reply followUp_reply search_reply log_reply prompt_reply =
     \<lparr>generateContent = (\<lambda>m cs. if is_followUp cs then followUp_reply else first_reply),
      searchRecords = (\<lambda>u a. search_reply),
      addTechnicalLog = (\<lambda>sid entry. log_reply entry),
      createContinuousImprovementSession = (\<lambda>k ck u w. Inr ''ci1''),
      loadLatestPrompt = (\<lambda>u w. prompt_reply),
      initializeChatSession = (\<lambda>u w. Inr demo_session),
      random_id = ''k3x9qa'',
      geminiModel = ''gemini-2.5-pro-preview-03-25''\<rparr>"

definition logs_ok :: "TechnicalLog \<Rightarrow> thrown + unit" where
  "logs_ok entry = Inr ()"

definition log_fails_on :: "string \<Rightarrow> TechnicalLog \<Rightarrow> thrown + unit" where
  "log_fails_on ev entry = (if log_event entry = ev then Inl (Error ''unavailable'') else Inr ())"


text \<open>The scenarios used below. All of them start from \<open>demo_render\<close> or a variant of it.\<close>

definition env_plain :: collaborators where
  "env_plain =
     scripted (Inr (parts_result [text_part ''We use three suppliers.''])) (Inr no_candidates_result)
       (Inr three_records) logs_ok (Inr None)"

definition env_round_trip :: collaborators where
  "env_round_trip =
     scripted (Inr (parts_result [call_part ''search_purchase_orders'']))
       (Inr (parts_result [text_part ''Found 3 orders from Huolto-Karhu Oy.'']))
       (Inr three_records) logs_ok (Inr None)"

definition env_search_fails :: collaborators where
  "env_search_fails =
     scripted (Inr (parts_result [call_part ''search_purchase_orders'']))
       (Inr (parts_result [text_part ''Found 3 orders from Huolto-Karhu Oy.'']))
       (Inl (Error ''ERP data not loaded'')) logs_ok (Inr None)"

definition env_followUp_empty :: collaborators where
  "env_followUp_empty =
     scripted (Inr (parts_result [call_part ''search_purchase_orders''])) (Inr no_candidates_result)
       (Inr three_records) logs_ok (Inr None)"

definition env_followUp_no_content :: collaborators where
  "env_followUp_no_content =
     scripted (Inr (parts_result [call_part ''search_purchase_orders''])) (Inr no_content_result)
       (Inr three_records) logs_ok (Inr None)"

definition env_other_call :: collaborators where
  "env_other_call =
     scripted (Inr (parts_result [call_part ''get_weather''])) (Inr no_candidates_result)
       (Inr three_records) logs_ok (Inr None)"

definition env_mixed_calls :: collaborators where
  "env_mixed_calls =
     scripted (Inr (parts_result [call_part ''get_weather'', call_part ''search_purchase_orders'']))
       (Inr (parts_result [text_part ''Found 3 orders from Huolto-Karhu Oy.'']))
       (Inr three_records) logs_ok (Inr None)"

definition env_user_message_log_fails :: collaborators where
  "env_user_message_log_fails =
     scripted (Inr (parts_result [text_part ''We use three suppliers.''])) (Inr no_candidates_result)
       (Inr three_records) (log_fails_on ''user_message'') (Inr None)"

definition env_ai_response_log_fails :: collaborators where
  "env_ai_response_log_fails =
     scripted (Inr (parts_result [text_part ''We use three suppliers.''])) (Inr no_candidates_result)
       (Inr three_records) (log_fails_on ''ai_response'') (Inr None)"

definition env_triggered_log_fails :: collaborators where
  "env_triggered_log_fails =
     scripted (Inr (parts_result [call_part ''search_purchase_orders'']))
       (Inr (parts_result [text_part ''Found 3 orders from Huolto-Karhu Oy.'']))
       (Inr three_records) (log_fails_on ''function_call_triggered'') (Inr None)"

definition fresh_render :: render where
  "fresh_render = demo_render\<lparr>continuousImprovementSessionId := None\<rparr>"

definition render_without_prompt :: render where
  "render_without_prompt = demo_render\<lparr>chatSession := None\<rparr>"

definition render_signed_out :: render where
  "render_signed_out = demo_render\<lparr>user := None\<rparr>"

definition blank_render :: render where
  "blank_render = demo_render\<lparr>input := [CHR '' '', CHR 0x09, CHR 0x0A]\<rparr>"

definition busy_render :: render where
  "busy_render = demo_render\<lparr>isLoading := True\<rparr>"

definition witness_sources :: "CitationSource list" where
  "witness_sources =
     [\<lparr>startIndex = None, endIndex = None, uri = Some ''https://a.example/p'', title = Some ''  ''\<rparr>,
      \<lparr>startIndex = None, endIndex = None, uri = None, title = Some ''No link''\<rparr>,
      \<lparr>startIndex = Some 0, endIndex = Some 4, uri = Some ''https://a.example/p'', title = Some ''Later''\<rparr>,
      \<lparr>startIndex = None, endIndex = None, uri = Some ''doc-2'', title = Some ''Maintenance policy''\<rparr>]"


section \<open>Citations\<close>

lemma trim_Nil [simp]: "trim [] = []"
  by (simp add: trim_def)

lemma dedup_first_by_uri_snoc:
  "dedup_first_by_uri (xs @ [x]) =
     dedup_first_by_uri xs @ (if truthy (uri x) \<and> uri x \<notin> set (map uri xs) then [x] else [])"
  by (simp add: dedup_first_by_uri_def)

lemma first_by_uri_rev_uris:
  "set (map uri (first_by_uri_rev xs)) = {v \<in> set (map uri xs). truthy v}"
  by (induction xs) auto

lemma dedup_first_by_uri_uris:
  "set (map uri (dedup_first_by_uri xs)) = {v \<in> set (map uri xs). truthy v}"
  using first_by_uri_rev_uris [of "rev xs"] by (simp add: dedup_first_by_uri_def)

lemma dedup_first_by_uri_truthy:
  "s \<in> set (dedup_first_by_uri xs) \<Longrightarrow> truthy (uri s)"
  using dedup_first_by_uri_uris [of xs] by auto

lemma seen_iff:
  assumes "u \<noteq> []"
  shows "u \<in> set (map (\<lambda>s. the (uri s)) (dedup_first_by_uri xs)) \<longleftrightarrow> Some u \<in> set (map uri xs)"
proof
  assume "u \<in> set (map (\<lambda>s. the (uri s)) (dedup_first_by_uri xs))"
  then obtain s where s: "s \<in> set (dedup_first_by_uri xs)" "u = the (uri s)" by auto
  from s(1) have "truthy (uri s)" by (rule dedup_first_by_uri_truthy)
  with s(2) have "uri s = Some u" by (auto simp: truthy_def split: option.splits)
  with s(1) have "Some u \<in> set (map uri (dedup_first_by_uri xs))" by force
  then show "Some u \<in> set (map uri xs)" using dedup_first_by_uri_uris [of xs] by blast
next
  assume "Some u \<in> set (map uri xs)"
  with assms have "Some u \<in> set (map uri (dedup_first_by_uri xs))"
    unfolding dedup_first_by_uri_uris by (simp add: truthy_def)
  then obtain s where "s \<in> set (dedup_first_by_uri xs)" "uri s = Some u" by auto
  then show "u \<in> set (map (\<lambda>s. the (uri s)) (dedup_first_by_uri xs))" by force
qed

lemma linkDescription_label:
  "uri s = Some u \<Longrightarrow> linkDescription s u = source_label s"
  by (auto simp: linkDescription_def source_label_def split: option.splits)

lemma citation_loop_invariant:
  "foldl citation_step citation_init ss =
     \<lparr>uniqueUris = map (\<lambda>s. the (uri s)) (dedup_first_by_uri ss),
      sourceNumber = 1 + length (dedup_first_by_uri ss),
      formattedSources = map render_source (enumerate 1 (dedup_first_by_uri ss))\<rparr>"
proof (induction ss rule: rev_induct)
  case Nil
  show ?case by (simp add: citation_init_def dedup_first_by_uri_def)
next
  case (snoc x xs)
  show ?case
  proof (cases "uri x")
    case None
    then show ?thesis
      using snoc by (simp add: citation_step_def dedup_first_by_uri_snoc truthy_def)
  next
    case (Some u)
    show ?thesis
    proof (cases "u \<noteq> [] \<and> Some u \<notin> set (map uri xs)")
      case True
      then have "u \<notin> set (map (\<lambda>s. the (uri s)) (dedup_first_by_uri xs))"
        using seen_iff [of u xs] by simp
      then show ?thesis
        using snoc Some True
        by (simp add: citation_step_def dedup_first_by_uri_snoc truthy_def enumerate_append_eq
            render_source_def linkDescription_label)
    next
      case False
      then have "u = [] \<or> u \<in> set (map (\<lambda>s. the (uri s)) (dedup_first_by_uri xs))"
        using seen_iff [of u xs] by auto
      then show ?thesis
        using snoc Some False
        by (auto simp add: citation_step_def dedup_first_by_uri_snoc truthy_def)
    qed
  qed
qed


lemma first_by_uri_rev_distinct: "distinct (map uri (first_by_uri_rev xs))"
proof (induction xs)
  case Nil
  show ?case by simp
next
  case (Cons s earlier)
  have "set (map uri (first_by_uri_rev earlier)) \<subseteq> set (map uri earlier)"
    using first_by_uri_rev_uris [of earlier] by blast
  with Cons show ?case by auto
qed

text \<open>
  C8. For every list of citation sources the formatted list is the rendering, numbered
  from 1, of the sources that carry a URI, each URI once and at the place of its first
  occurrence (a source without a URI has nothing to link to and is left out); the label is
  the title when it is present and not blank, the URI otherwise. For the three sources
  a/X, a/Y, b the list has the two entries labelled X and b.
\<close>

theorem processTextWithCitations_dedups_by_uri:
  "out_formattedSources (processTextWithCitations t (Some ss)) = spec_formattedSources ss
   \<and> distinct (map uri (dedup_first_by_uri ss))
   \<and> set (map uri (dedup_first_by_uri ss)) = {v \<in> set (map uri ss). truthy v}
   \<and> out_formattedSources (processTextWithCitations t (Some example_sources))
       = [''[Source 1: X](a)'', ''[Source 2: b](b)'']"
proof -
  have "out_formattedSources (processTextWithCitations t (Some ss)) = spec_formattedSources ss"
  proof (cases "ss = []")
    case True
    then show ?thesis
      by (simp add: processTextWithCitations_def spec_formattedSources_def dedup_first_by_uri_def)
  next
    case False
    then show ?thesis
      by (simp add: processTextWithCitations_def citation_loop_invariant spec_formattedSources_def)
  qed
  moreover have "distinct (map uri (dedup_first_by_uri ss))"
    using first_by_uri_rev_distinct [of "rev ss"]
    by (simp add: dedup_first_by_uri_def rev_map [symmetric])
  moreover have "out_formattedSources (processTextWithCitations t (Some example_sources))
       = [''[Source 1: X](a)'', ''[Source 2: b](b)'']"
    by code_simp
  ultimately show ?thesis
    using dedup_first_by_uri_uris [of ss] by simp
qed

theorem processTextWithCitations_dedups_by_uri_witness:
  "out_formattedSources (processTextWithCitations ''See the policy.'' (Some witness_sources))
     = [''[Source 1: https://a.example/p](https://a.example/p)'',
        ''[Source 2: Maintenance policy](doc-2)'']"
proof -
  have "spec_formattedSources witness_sources
     = [''[Source 1: https://a.example/p](https://a.example/p)'',
        ''[Source 2: Maintenance policy](doc-2)'']"
    by code_simp
  then show ?thesis
    using processTextWithCitations_dedups_by_uri [of "''See the policy.''" witness_sources]
    by simp
qed

section \<open>The turn controller\<close>

subsection \<open>Computations\<close>

lemma fst_ret [simp]: "fst (ret a) = []" and snd_ret [simp]: "snd (ret a) = Inr a"
  by (simp_all add: ret_def)

lemma fst_throw [simp]: "fst (throw e) = []" and snd_throw [simp]: "snd (throw e) = Inl e"
  by (simp_all add: throw_def)

lemma fst_emit [simp]: "fst (emit es) = es" and snd_emit [simp]: "snd (emit es) = Inr ()"
  by (simp_all add: emit_def)

lemma fst_await_call [simp]: "fst (await_call e outcome) = [e]"
  and snd_await_call [simp]: "snd (await_call e outcome) = outcome"
  by (simp_all add: await_call_def)

lemma fst_and_then:
  "fst (and_then m f) = fst m @ (case snd m of Inl e \<Rightarrow> [] | Inr a \<Rightarrow> fst (f a))"
  by (simp add: and_then_def split: sum.splits)

lemma snd_and_then:
  "snd (and_then m f) = (case snd m of Inl e \<Rightarrow> Inl e | Inr a \<Rightarrow> snd (f a))"
  by (simp add: and_then_def split: sum.splits)

lemma fst_try_catch:
  "fst (try_catch m h) = fst m @ (case snd m of Inl e \<Rightarrow> fst (h e) | Inr a \<Rightarrow> [])"
  by (cases m) (simp add: try_catch_def split: sum.splits)

lemma snd_try_catch:
  "snd (try_catch m h) = (case snd m of Inl e \<Rightarrow> snd (h e) | Inr a \<Rightarrow> Inr a)"
  by (cases m) (simp add: try_catch_def split: sum.splits)

lemma fst_try_finally [simp]: "fst (try_finally m es) = fst m @ es"
  and snd_try_finally [simp]: "snd (try_finally m es) = snd m"
  by (simp_all add: try_finally_def)

lemmas comp_simps = fst_and_then snd_and_then fst_try_catch snd_try_catch

subsection \<open>Observations\<close>

lemma appended_append [simp]: "appended (xs @ ys) = appended xs @ appended ys"
  by (induction xs rule: appended.induct) simp_all

lemma model_requests_append [simp]: "model_requests (xs @ ys) = model_requests xs @ model_requests ys"
  by (induction xs rule: model_requests.induct) simp_all

lemma search_calls_append [simp]: "search_calls (xs @ ys) = search_calls xs @ search_calls ys"
  by (induction xs rule: search_calls.induct) simp_all

lemma telemetry_events_append [simp]:
  "telemetry_events (xs @ ys) = telemetry_events xs @ telemetry_events ys"
  by (induction xs rule: telemetry_events.induct) simp_all

lemma conversation_append [simp]: "conversation (xs @ ys) = conversation xs @ conversation ys"
  by (simp add: conversation_def)

lemma run_append: "run (xs @ ys) s = run ys (run xs s)"
  by (simp add: run_def)

lemma messages_run:
  "ClearMessages \<notin> set es \<Longrightarrow> messages (run es s) = messages s @ appended es"
proof (induction es arbitrary: s)
  case Nil
  show ?case by (simp add: run_def)
next
  case (Cons e es)
  then have "messages (run es (apply_effect e s)) = messages (apply_effect e s) @ appended es"
    by simp
  moreover have "e \<noteq> ClearMessages" using Cons.prems by auto
  ultimately show ?case
    by (cases e) (simp_all add: run_def)
qed

subsection \<open>Quiet steps\<close>

lemma quiet_log [simp]: "quiet (fst (log_if_session env c entry))"
  by (simp add: log_if_session_def quiet_def)

lemma quiet_init [simp]: "quiet (fst (initializeContinuousImprovement env c))"
  by (simp add: initializeContinuousImprovement_def quiet_def comp_simps Let_def
      split: option.splits sum.splits)

lemma snd_init [simp]: "snd (initializeContinuousImprovement env c) = Inr ()"
  by (simp add: initializeContinuousImprovement_def comp_simps Let_def
      split: option.splits sum.splits)

lemma quiet_resolve [simp]: "quiet (fst (resolve_systemPrompt env c))"
  by (simp add: resolve_systemPrompt_def quiet_def comp_simps
      split: option.splits sum.splits)


subsection \<open>The round trip\<close>

lemma catch_functionError_throws:
  "catch_functionError env c fc e = ([], Inl (ReferenceError ''aiRequestId is not defined''))"
  by (simp add: catch_functionError_def aiRequestId_in_catch_clause_def and_then_def)


lemma fst_round_trip: "fst (round_trip env c t sp part fc) = fst (function_round_trip env c t sp part fc)"
  by (simp add: round_trip_def fst_try_catch catch_functionError_throws split: sum.splits)

lemma snd_round_trip:
  "snd (round_trip env c t sp part fc) =
     (case snd (function_round_trip env c t sp part fc) of
        Inl e \<Rightarrow> Inl (ReferenceError ''aiRequestId is not defined'')
      | Inr a \<Rightarrow> Inr a)"
  by (simp add: round_trip_def snd_try_catch catch_functionError_throws split: sum.splits)

lemma quietD:
  "quiet es \<Longrightarrow> appended es = []"
  "quiet es \<Longrightarrow> model_requests es = []"
  "quiet es \<Longrightarrow> search_calls es = []"
  "quiet es \<Longrightarrow> ClearMessages \<notin> set es"
  by (simp_all add: quiet_def)

lemmas log_quiet [simp] = quietD [OF quiet_log]
lemmas init_quiet [simp] = quietD [OF quiet_init]
lemmas resolve_quiet [simp] = quietD [OF quiet_resolve]

lemma frt_no_clear: "ClearMessages \<notin> set (fst (function_round_trip env c t sp part fc))"
  by (simp add: function_round_trip_def Let_def comp_simps split: sum.splits option.splits)

lemma frt_search_le: "length (search_calls (fst (function_round_trip env c t sp part fc))) \<le> 1"
  by (simp add: function_round_trip_def Let_def comp_simps split: sum.splits option.splits)

lemma frt_models:
  "model_requests (fst (function_round_trip env c t sp part fc)) = [] \<or>
   (\<exists>sr. model_requests (fst (function_round_trip env c t sp part fc)) =
      [(chat_model env, followUp_contents sp (history_of (messages c)) t part
          (functionResponse_turn (fc_name fc) sr))])"
  by (auto simp add: function_round_trip_def Let_def comp_simps split: sum.splits option.splits)

lemma frt_appended_le: "length (appended (fst (function_round_trip env c t sp part fc))) \<le> 1"
  by (simp add: function_round_trip_def Let_def comp_simps split: sum.splits option.splits)


lemma followUp_contents_eq:
  "followUp_contents sp h t part fr =
     first_contents sp h t @ [\<lparr>c_role = Model, c_parts = [part]\<rparr>, fr]"
  by (simp add: followUp_contents_def first_contents_def)

subsection \<open>The loop over the parts\<close>

lemma scan_no_clear: "ClearMessages \<notin> set (fst (scan_parts env c t sp ps))"
  by (induction ps) (simp_all add: comp_simps fst_round_trip frt_no_clear split: option.splits sum.splits)

lemma scan_search_le: "length (search_calls (fst (scan_parts env c t sp ps))) \<le> 1"
  by (induction ps)
    (use frt_search_le in \<open>simp_all add: comp_simps fst_round_trip split: option.splits sum.splits\<close>)

lemma scan_appended_le: "length (appended (fst (scan_parts env c t sp ps))) \<le> 1"
  by (induction ps)
    (use frt_appended_le in \<open>simp_all add: comp_simps fst_round_trip split: option.splits sum.splits\<close>)

lemma scan_models:
  "model_requests (fst (scan_parts env c t sp ps)) = [] \<or>
   (\<exists>part sr. functionCall part \<noteq> None \<and>
      model_requests (fst (scan_parts env c t sp ps)) =
        [(chat_model env, followUp_contents sp (history_of (messages c)) t part
            (functionResponse_turn ''search_purchase_orders'' sr))])"
proof (induction ps)
  case Nil
  show ?case by simp
next
  case (Cons part rest)
  show ?case
  proof (cases "functionCall part")
    case None
    with Cons show ?thesis by simp
  next
    case (Some fc)
    show ?thesis
    proof (cases "fc_name fc = ''search_purchase_orders''")
      case False
      with Some Cons show ?thesis by simp
    next
      case True
      from frt_models [of env c t sp part fc] True Some show ?thesis
        by (auto simp add: comp_simps fst_round_trip split: sum.splits)
    qed
  qed
qed

subsection \<open>The body of the turn\<close>

lemma plain_no_clear: "ClearMessages \<notin> set (fst (plain_response env c cand))"
  by (simp add: plain_response_def Let_def comp_simps split: sum.splits)

lemma plain_quiet_calls:
  "model_requests (fst (plain_response env c cand)) = []"
  "search_calls (fst (plain_response env c cand)) = []"
  by (simp_all add: plain_response_def Let_def comp_simps split: sum.splits)

lemma turn_body_no_clear: "ClearMessages \<notin> set (fst (turn_body env c t))"
  by (simp add: turn_body_def handle_response_def comp_simps scan_no_clear plain_no_clear
      split: sum.splits option.splits list.splits)

lemma turn_body_search_le: "length (search_calls (fst (turn_body env c t))) \<le> 1"
  using scan_search_le
  by (simp add: turn_body_def handle_response_def comp_simps plain_quiet_calls
      split: sum.splits option.splits list.splits)

lemma turn_body_models:
  "model_requests (fst (turn_body env c t)) = [] \<or>
   (\<exists>cs. model_requests (fst (turn_body env c t)) = [(chat_model env, cs)]) \<or>
   (\<exists>cs part sr. functionCall part \<noteq> None \<and>
      model_requests (fst (turn_body env c t)) =
        [(chat_model env, cs),
         (chat_model env, cs @ [\<lparr>c_role = Model, c_parts = [part]\<rparr>,
            functionResponse_turn ''search_purchase_orders'' sr])])"
proof (cases "snd (resolve_systemPrompt env c)")
  case (Inl e)
  then show ?thesis by (simp add: turn_body_def handle_response_def comp_simps)
next
  case (Inr sp)
  have scan: "\<And>ps. model_requests (fst (scan_parts env c t sp ps)) = [] \<or>
     (\<exists>part sr. functionCall part \<noteq> None \<and>
        model_requests (fst (scan_parts env c t sp ps)) =
          [(chat_model env, first_contents sp (history_of (messages c)) t
              @ [\<lparr>c_role = Model, c_parts = [part]\<rparr>,
                 functionResponse_turn ''search_purchase_orders'' sr])])"
    using scan_models [of env c t sp] by (simp add: followUp_contents_eq)
  show ?thesis
    using Inr scan
    by (auto simp add: turn_body_def handle_response_def comp_simps plain_quiet_calls
        split: sum.splits option.splits list.splits)
qed


subsection \<open>The whole turn\<close>

lemma fst_guarded_body:
  "fst (guarded_body env c t) =
     fst (turn_body env c t)
     @ (case snd (turn_body env c t) of Inl e \<Rightarrow> [AppendMessage generic_error_turn] | Inr a \<Rightarrow> [])
     @ [SetIsLoading False]"
  by (simp add: guarded_body_def comp_simps split: sum.splits)

lemma snd_guarded_body: "snd (guarded_body env c t) = Inr ()"
  by (simp add: guarded_body_def comp_simps split: sum.splits)

lemma handleSendMessage_rejected:
  "trim (textToSend_of c mt) = [] \<or> isLoading c \<Longrightarrow> handleSendMessage env c mt = ([], Inr ())"
  by (auto simp add: handleSendMessage_def Let_def ret_def)

lemma fst_handleSendMessage:
  assumes "trim (textToSend_of c mt) \<noteq> []" "\<not> isLoading c"
  shows "fst (handleSendMessage env c mt) =
           prologue env c mt
           @ (case user_message_log env c mt of
                Inl e \<Rightarrow> []
              | Inr a \<Rightarrow> fst (guarded_body env c (textToSend_of c mt)))"
  using assms
  by (simp add: handleSendMessage_def Let_def comp_simps prologue_def user_message_log_def
      split: sum.splits)

lemma snd_handleSendMessage:
  assumes "trim (textToSend_of c mt) \<noteq> []" "\<not> isLoading c"
  shows "snd (handleSendMessage env c mt) =
           (case user_message_log env c mt of Inl e \<Rightarrow> Inl e | Inr a \<Rightarrow> Inr ())"
  using assms
  by (simp add: handleSendMessage_def Let_def comp_simps user_message_log_def snd_guarded_body
      split: sum.splits)

lemma prologue_obs:
  "appended (prologue env c mt) = [userMessage_of (textToSend_of c mt)]"
  "model_requests (prologue env c mt) = []"
  "search_calls (prologue env c mt) = []"
  "ClearMessages \<notin> set (prologue env c mt)"
  by (simp_all add: prologue_def)

lemma guarded_body_obs:
  "model_requests (fst (guarded_body env c t)) = model_requests (fst (turn_body env c t))"
  "search_calls (fst (guarded_body env c t)) = search_calls (fst (turn_body env c t))"
  "ClearMessages \<notin> set (fst (guarded_body env c t))"
  by (simp_all add: fst_guarded_body turn_body_no_clear generic_error_turn_def split: sum.splits)

lemma handleSendMessage_no_clear: "ClearMessages \<notin> set (fst (handleSendMessage env c mt))"
proof (cases "trim (textToSend_of c mt) = [] \<or> isLoading c")
  case True
  then show ?thesis by (simp add: handleSendMessage_rejected)
next
  case False
  then show ?thesis
    by (simp add: fst_handleSendMessage prologue_obs guarded_body_obs split: sum.splits)
qed

lemma handleSendMessage_models:
  "model_requests (fst (handleSendMessage env c mt)) = [] \<or>
   model_requests (fst (handleSendMessage env c mt))
     = model_requests (fst (turn_body env c (textToSend_of c mt)))"
proof (cases "trim (textToSend_of c mt) = [] \<or> isLoading c")
  case True
  then show ?thesis by (simp add: handleSendMessage_rejected)
next
  case False
  then show ?thesis
    by (simp add: fst_handleSendMessage prologue_obs guarded_body_obs split: sum.splits)
qed

lemma handleSendMessage_searches:
  "search_calls (fst (handleSendMessage env c mt)) = [] \<or>
   search_calls (fst (handleSendMessage env c mt))
     = search_calls (fst (turn_body env c (textToSend_of c mt)))"
proof (cases "trim (textToSend_of c mt) = [] \<or> isLoading c")
  case True
  then show ?thesis by (simp add: handleSendMessage_rejected)
next
  case False
  then show ?thesis
    by (simp add: fst_handleSendMessage prologue_obs guarded_body_obs split: sum.splits)
qed


text \<open>
  The guard of line 214: when the text to send is empty or only white space after trimming,
  or the render that created the handler has its \<open>isLoading\<close> flag set, the controller
  has no effect at all.
\<close>

lemma handleSendMessage_guard:
  assumes "trim (textToSend_of c messageText) = [] \<or> isLoading c"
  shows "handleSendMessage env c messageText = ([], Inr ())
         \<and> run (fst (handleSendMessage env c messageText)) s = s
         \<and> model_invocations (fst (handleSendMessage env c messageText)) = 0
         \<and> search_invocations (fst (handleSendMessage env c messageText)) = 0"
  using assms
  by (simp add: handleSendMessage_rejected run_def model_invocations_def search_invocations_def)

lemma handleSendMessage_guard_instances:
  "trim (textToSend_of blank_render None) = []
   \<and> isLoading busy_render
   \<and> handleSendMessage env_plain blank_render None = ([], Inr ())
   \<and> handleSendMessage env_plain busy_render (Some ''What suppliers do we use?'') = ([], Inr ())
   \<and> messages (run (fst (handleSendMessage env_plain busy_render (Some ''What suppliers do we use?'')))
        busy_render) = messages busy_render"
proof -
  have blank: "trim (textToSend_of blank_render None) = []"
    by code_simp
  have busy: "isLoading busy_render"
    by (simp add: busy_render_def)
  from handleSendMessage_guard [of blank_render None env_plain blank_render] blank
       handleSendMessage_guard
         [of busy_render "Some ''What suppliers do we use?''" env_plain busy_render] busy
  show ?thesis by (simp add: run_def)
qed

text \<open>
  C7. The claim asks that an input sent while a turn is in flight be a no-op. The flag
  that the guard reads is set at line 224, after the \<open>await\<close> of line 218. On the first
  message of a chat (no telemetry session id yet) the turn is suspended there with no setter
  called: the component state, and so the handler, is the one it was, and \<open>isLoading\<close> is
  still false. A second input sent at that moment passes the guard: it appends its own user
  turn and invokes the model.
\<close>

theorem second_send_accepted_while_first_awaits_session:
  "until_session_call (fst (handleSendMessage env_plain fresh_render None))
     = [Call_createContinuousImprovementSession ''erika_v1'' ''chat_1'' ''u1'' ''purchaser'']
   \<and> run (until_session_call (fst (handleSendMessage env_plain fresh_render None))) fresh_render
     = fresh_render
   \<and> \<not> isLoading (run (until_session_call (fst (handleSendMessage env_plain fresh_render None)))
          fresh_render)
   \<and> model_invocations (fst (handleSendMessage env_plain
         (run (until_session_call (fst (handleSendMessage env_plain fresh_render None))) fresh_render)
         (Some ''Show me recent invoices''))) = 1
   \<and> appended (fst (handleSendMessage env_plain
         (run (until_session_call (fst (handleSendMessage env_plain fresh_render None))) fresh_render)
         (Some ''Show me recent invoices'')))
     = [userMessage_of ''Show me recent invoices'',
        model_turn [text_part ''We use three suppliers.''] None]"
proof -
  have suspended: "until_session_call (fst (handleSendMessage env_plain fresh_render None))
      = [Call_createContinuousImprovementSession ''erika_v1'' ''chat_1'' ''u1'' ''purchaser'']"
    by code_simp
  then have same: "run (until_session_call (fst (handleSendMessage env_plain fresh_render None)))
      fresh_render = fresh_render"
    by (simp add: run_def)
  have idle: "\<not> isLoading fresh_render"
    by (simp add: fresh_render_def demo_render_def)
  have calls: "model_invocations (fst (handleSendMessage env_plain fresh_render
      (Some ''Show me recent invoices''))) = 1"
    by code_simp
  have turns: "appended (fst (handleSendMessage env_plain fresh_render (Some ''Show me recent invoices'')))
      = [userMessage_of ''Show me recent invoices'',
         model_turn [text_part ''We use three suppliers.''] None]"
    by code_simp
  show ?thesis
    unfolding same using suspended idle calls turns by simp
qed

text \<open>
  C1. The claim asks for a terminal model turn after every accepted turn. When the
  follow-up response of a round-trip has no candidate, the controller returns normally
  without appending anything: the history ends in the user turn.
\<close>

theorem followUp_without_candidates_leaves_user_turn_last:
  "snd (handleSendMessage env_followUp_empty demo_render None) = Inr ()
   \<and> model_invocations (fst (handleSendMessage env_followUp_empty demo_render None)) = 2
   \<and> messages (run (fst (handleSendMessage env_followUp_empty demo_render None)) demo_render)
       = messages demo_render @ [userMessage_of ''Find Huolto-Karhu orders'']
   \<and> msg_role (last (messages (run (fst (handleSendMessage env_followUp_empty demo_render None))
        demo_render))) = User"
  by code_simp

text \<open>
  C2. The claim asks for exactly two new entries per accepted turn. When the first
  candidate of the follow-up response has no content, the history grows by one entry only.
\<close>

theorem followUp_without_content_grows_history_by_one:
  "length (messages (run (fst (handleSendMessage env_followUp_no_content demo_render None)) demo_render))
     = length (messages demo_render) + 1
   \<and> appended (fst (handleSendMessage env_followUp_no_content demo_render None))
     = [userMessage_of ''Find Huolto-Karhu orders'']"
  by code_simp

text \<open>
  C4. The claim asks, when the search throws, for a \<open>function_call_error\<close> event and a
  model turn that says "encountered an error". The catch clause throws a ReferenceError
  at its first statement, so neither happens: the outer handler appends the generic error
  turn, and the last telemetry event is \<open>function_call_triggered\<close>. No second model
  invocation is made.
\<close>

theorem search_failure_ends_in_generic_error_turn:
  "appended (fst (handleSendMessage env_search_fails demo_render None))
     = [userMessage_of ''Find Huolto-Karhu orders'',
        model_turn [text_part ''Error processing your request. Please try again.''] None]
   \<and> telemetry_events (fst (handleSendMessage env_search_fails demo_render None))
     = [''user_message'', ''function_call_triggered'']
   \<and> search_calls (fst (handleSendMessage env_search_fails demo_render None))
     = [(''u1'', [(''supplierName'', ''Huolto-Karhu'')])]
   \<and> model_invocations (fst (handleSendMessage env_search_fails demo_render None)) = 1"
  by code_simp

subsection \<open>Turns whose telemetry writes succeed\<close>

lemma snd_log_ok:
  assumes "telemetry_writes_succeed env c"
  shows "snd (log_if_session env c entry) = Inr ()"
  using assms by (simp add: telemetry_writes_succeed_def)

lemma frt_exact:
  assumes logs: "telemetry_writes_succeed env c"
    and usr: "user c = Some u"
  shows "search_calls (fst (function_round_trip env c t sp part fc)) = [(uid u, fc_args fc)]"
    and "length (model_requests (fst (function_round_trip env c t sp part fc)))
           = (if succeeded (searchRecords env (uid u) (fc_args fc)) then 1 else 0)"
  using usr
  by (simp_all add: function_round_trip_def Let_def comp_simps snd_log_ok [OF logs] succeeded_def
      split: sum.splits option.splits)

lemma scan_unrecognized:
  "recognized_call ps = None \<Longrightarrow> scan_parts env c t sp ps = ([], Inr False)"
  by (induction ps) (simp_all add: ret_def split: option.splits if_splits)

lemma scan_exact:
  assumes logs: "telemetry_writes_succeed env c"
    and usr: "user c = Some u"
  shows "length (search_calls (fst (scan_parts env c t sp ps)))
           = (case recognized_call ps of None \<Rightarrow> 0 | Some fc \<Rightarrow> 1)
         \<and> length (model_requests (fst (scan_parts env c t sp ps)))
           = (case recognized_call ps of
                None \<Rightarrow> 0
              | Some fc \<Rightarrow> if succeeded (searchRecords env (uid u) (fc_args fc)) then 1 else 0)"
proof (induction ps)
  case Nil
  show ?case by simp
next
  case (Cons part rest)
  show ?case
  proof (cases "functionCall part")
    case None
    with Cons show ?thesis by simp
  next
    case (Some fc)
    show ?thesis
    proof (cases "fc_name fc = ''search_purchase_orders''")
      case False
      with Some Cons show ?thesis by simp
    next
      case True
      with Some frt_exact [OF logs usr, of t sp part fc] show ?thesis
        by (simp add: comp_simps fst_round_trip split: sum.splits)
    qed
  qed
qed

lemma turn_body_calls:
  assumes prompt: "snd (resolve_systemPrompt env c) = Inr sp"
  shows "search_calls (fst (turn_body env c t))
           = (case first_outcome env c t sp of
                Inl e \<Rightarrow> []
              | Inr result \<Rightarrow> search_calls (fst (scan_parts env c t sp (first_candidate_parts result))))"
    and "model_requests (fst (turn_body env c t))
           = (chat_model env, first_contents sp (history_of (messages c)) t)
             # (case first_outcome env c t sp of
                  Inl e \<Rightarrow> []
                | Inr result \<Rightarrow>
                    model_requests (fst (scan_parts env c t sp (first_candidate_parts result))))"
  using prompt
  by (simp_all add: turn_body_def handle_response_def comp_simps plain_quiet_calls first_outcome_def
      first_candidate_parts_def first_candidate_content_def
      split: sum.splits option.splits list.splits)

lemma turn_body_exact:
  assumes logs: "telemetry_writes_succeed env c"
    and usr: "user c = Some u"
    and prompt: "snd (resolve_systemPrompt env c) = Inr sp"
  shows "length (search_calls (fst (turn_body env c t)))
           = (case recognized_in (first_outcome env c t sp) of None \<Rightarrow> 0 | Some fc \<Rightarrow> 1)"
    and "length (model_requests (fst (turn_body env c t)))
           = (case recognized_in (first_outcome env c t sp) of
                None \<Rightarrow> 1
              | Some fc \<Rightarrow> if succeeded (searchRecords env (uid u) (fc_args fc)) then 2 else 1)"
proof -
  show "length (search_calls (fst (turn_body env c t)))
           = (case recognized_in (first_outcome env c t sp) of None \<Rightarrow> 0 | Some fc \<Rightarrow> 1)"
  proof (cases "first_outcome env c t sp")
    case (Inl e)
    then show ?thesis by (simp add: turn_body_calls [OF prompt] recognized_in_def)
  next
    case (Inr result)
    with scan_exact [OF logs usr, of t sp "first_candidate_parts result"] show ?thesis
      by (simp add: turn_body_calls [OF prompt] recognized_in_def)
  qed
  show "length (model_requests (fst (turn_body env c t)))
           = (case recognized_in (first_outcome env c t sp) of
                None \<Rightarrow> 1
              | Some fc \<Rightarrow> if succeeded (searchRecords env (uid u) (fc_args fc)) then 2 else 1)"
  proof (cases "first_outcome env c t sp")
    case (Inl e)
    then show ?thesis by (simp add: turn_body_calls [OF prompt] recognized_in_def)
  next
    case (Inr result)
    with scan_exact [OF logs usr, of t sp "first_candidate_parts result"] show ?thesis
      by (simp add: turn_body_calls [OF prompt] recognized_in_def split: option.splits)
  qed
qed

lemma turn_body_without_prompt:
  "snd (resolve_systemPrompt env c) = Inl e \<Longrightarrow> model_requests (fst (turn_body env c t)) = []"
  by (simp add: turn_body_def handle_response_def comp_simps)

lemma handleSendMessage_accepted_calls:
  assumes "trim (textToSend_of c mt) \<noteq> []" "\<not> isLoading c"
    and "user_message_log env c mt = Inr ()"
  shows "model_requests (fst (handleSendMessage env c mt))
           = model_requests (fst (turn_body env c (textToSend_of c mt)))"
    and "search_calls (fst (handleSendMessage env c mt))
           = search_calls (fst (turn_body env c (textToSend_of c mt)))"
  using assms
  by (simp_all add: fst_handleSendMessage prologue_obs guarded_body_obs)


text \<open>
  C9 (as amended). A turn makes at most two model invocations, none at all when no system
  prompt is available, and at most one search invocation; whatever state its setters find,
  they only append to the history. For an accepted turn with a system prompt, a signed-in
  user and telemetry writes that succeed, the model is invoked twice exactly when the first
  response carries a recognized function call and the search succeeds, once otherwise, and
  the search is invoked once exactly when the first response carries a recognized function
  call.
\<close>

theorem turn_invocation_counts:
  "model_invocations (fst (handleSendMessage env c messageText))
     \<le> (if succeeded (snd (resolve_systemPrompt env c)) then 2 else 0)
   \<and> search_invocations (fst (handleSendMessage env c messageText)) \<le> 1
   \<and> (\<forall>s. messages (run (fst (handleSendMessage env c messageText)) s)
          = messages s @ appended (fst (handleSendMessage env c messageText)))
   \<and> (trim (textToSend_of c messageText) \<noteq> [] \<and> \<not> isLoading c
        \<and> snd (resolve_systemPrompt env c) = Inr systemPrompt
        \<and> user c = Some u \<and> telemetry_writes_succeed env c \<longrightarrow>
        model_invocations (fst (handleSendMessage env c messageText))
          = (case recognized_in (first_outcome env c (textToSend_of c messageText) systemPrompt) of
               None \<Rightarrow> 1
             | Some fc \<Rightarrow> if succeeded (searchRecords env (uid u) (fc_args fc)) then 2 else 1)
        \<and> search_invocations (fst (handleSendMessage env c messageText))
          = (case recognized_in (first_outcome env c (textToSend_of c messageText) systemPrompt) of
               None \<Rightarrow> 0
             | Some fc \<Rightarrow> 1))"
proof -
  let ?tr = "fst (handleSendMessage env c messageText)"
  let ?t = "textToSend_of c messageText"
  let ?tb = "fst (turn_body env c ?t)"
  have tb_le: "length (model_requests ?tb) \<le> 2"
    using turn_body_models [of env c ?t] by auto
  have models: "model_invocations ?tr \<le> (if succeeded (snd (resolve_systemPrompt env c)) then 2 else 0)"
  proof (cases "snd (resolve_systemPrompt env c)")
    case (Inl e)
    with handleSendMessage_models [of env c messageText] turn_body_without_prompt [of env c e ?t]
    show ?thesis by (auto simp add: model_invocations_def succeeded_def)
  next
    case (Inr sp)
    with handleSendMessage_models [of env c messageText] tb_le
    show ?thesis by (auto simp add: model_invocations_def succeeded_def)
  qed
  have searches: "search_invocations ?tr \<le> 1"
    using handleSendMessage_searches [of env c messageText] turn_body_search_le [of env c ?t]
    by (auto simp add: search_invocations_def)
  have append_only: "\<forall>s. messages (run ?tr s) = messages s @ appended ?tr"
    using handleSendMessage_no_clear [of env c messageText] by (simp add: messages_run)
  have exact: "model_invocations ?tr
          = (case recognized_in (first_outcome env c ?t systemPrompt) of
               None \<Rightarrow> 1
             | Some fc \<Rightarrow> if succeeded (searchRecords env (uid u) (fc_args fc)) then 2 else 1)
        \<and> search_invocations ?tr
          = (case recognized_in (first_outcome env c ?t systemPrompt) of None \<Rightarrow> 0 | Some fc \<Rightarrow> 1)"
    if acc: "trim ?t \<noteq> []" "\<not> isLoading c"
      and prompt: "snd (resolve_systemPrompt env c) = Inr systemPrompt"
      and usr: "user c = Some u" and logs: "telemetry_writes_succeed env c"
  proof -
    have "user_message_log env c messageText = Inr ()"
      using logs by (simp add: user_message_log_def snd_log_ok)
    from handleSendMessage_accepted_calls [OF acc this] turn_body_exact [OF logs usr prompt, of ?t]
    show ?thesis by (simp add: model_invocations_def search_invocations_def)
  qed
  from models searches append_only exact show ?thesis by blast
qed


theorem turn_invocation_counts_witness:
  "trim (textToSend_of demo_render None) \<noteq> [] \<and> \<not> isLoading demo_render
   \<and> snd (resolve_systemPrompt env_round_trip demo_render) = Inr ''You are a procurement assistant.''
   \<and> user demo_render = Some demo_user
   \<and> telemetry_writes_succeed env_round_trip demo_render
   \<and> model_invocations (fst (handleSendMessage env_round_trip demo_render None)) = 2
   \<and> search_invocations (fst (handleSendMessage env_round_trip demo_render None)) = 1"
proof -
  have acc: "trim (textToSend_of demo_render None) \<noteq> [] \<and> \<not> isLoading demo_render"
    by code_simp
  have prompt: "snd (resolve_systemPrompt env_round_trip demo_render)
      = Inr ''You are a procurement assistant.''"
    by code_simp
  have usr: "user demo_render = Some demo_user"
    by (simp add: demo_render_def)
  have logs: "telemetry_writes_succeed env_round_trip demo_render"
    by (simp add: telemetry_writes_succeed_def log_if_session_def env_round_trip_def scripted_def
        logs_ok_def)
  have rec: "recognized_in (first_outcome env_round_trip demo_render
        (textToSend_of demo_render None) ''You are a procurement assistant.'')
      = Some \<lparr>fc_name = ''search_purchase_orders'', fc_args = [(''supplierName'', ''Huolto-Karhu'')]\<rparr>"
    by code_simp
  have ok: "succeeded (searchRecords env_round_trip (uid demo_user) [(''supplierName'', ''Huolto-Karhu'')])"
    by code_simp
  from turn_invocation_counts
         [of env_round_trip demo_render None "''You are a procurement assistant.''" demo_user]
       acc prompt usr logs rec ok
  show ?thesis by simp
qed

text \<open>
  C9 as stated fails: without a system prompt the turn is processed with no model
  invocation; with a recognized function call the search is not invoked when no user is
  signed in or when the \<open>function_call_triggered\<close> write is rejected.
\<close>

theorem turn_invocation_counts_counterexample:
  "model_invocations (fst (handleSendMessage env_plain render_without_prompt None)) = 0
   \<and> appended (fst (handleSendMessage env_plain render_without_prompt None))
       = [userMessage_of ''Find Huolto-Karhu orders'', generic_error_turn]
   \<and> model_invocations (fst (handleSendMessage env_round_trip render_signed_out None)) = 1
   \<and> search_invocations (fst (handleSendMessage env_round_trip render_signed_out None)) = 0
   \<and> search_invocations (fst (handleSendMessage env_triggered_log_fails demo_render None)) = 0"
  by code_simp


lemma turn_body_falls_through:
  assumes logs: "telemetry_writes_succeed env c"
    and prompt: "snd (resolve_systemPrompt env c) = Inr sp"
    and first: "first_outcome env c t sp = Inr result"
    and cand: "first_candidate result = Some candidate"
    and parts: "content candidate = Some ct" "cc_parts ct = Some ps"
    and unrecognized: "recognized_call ps = None"
  shows "appended (fst (turn_body env c t)) = [model_turn ps (processedCitationMetadata_of candidate)]"
    and "snd (turn_body env c t) = Inr ()"
    and "search_calls (fst (turn_body env c t)) = []"
    and "length (model_requests (fst (turn_body env c t))) = 1"
proof -
  from cand obtain resp others where resp: "result_response result = Some resp"
      "candidates resp = Some (candidate # others)"
    by (auto simp add: first_candidate_def split: option.splits list.splits)
  have gen: "generateContent env (chat_model env) (first_contents sp (history_of (messages c)) t)
      = Inr result"
    using first by (simp add: first_outcome_def)
  have scan: "scan_parts env c t sp ps = ([], Inr False)"
    by (rule scan_unrecognized [OF unrecognized])
  show "appended (fst (turn_body env c t)) = [model_turn ps (processedCitationMetadata_of candidate)]"
    using prompt gen resp parts scan
    by (simp add: turn_body_def handle_response_def comp_simps plain_response_def Let_def snd_log_ok [OF logs] parts_or_def)
  show "snd (turn_body env c t) = Inr ()"
    using prompt gen resp parts scan
    by (simp add: turn_body_def handle_response_def comp_simps plain_response_def Let_def snd_log_ok [OF logs])
  show "search_calls (fst (turn_body env c t)) = []"
    using prompt gen resp parts scan
    by (simp add: turn_body_def handle_response_def comp_simps plain_quiet_calls)
  show "length (model_requests (fst (turn_body env c t))) = 1"
    using prompt gen resp parts scan
    by (simp add: turn_body_def handle_response_def comp_simps plain_quiet_calls)
qed

text \<open>
  C10 (as amended). When none of the parts of the first candidate is a function call named
  \<open>search_purchase_orders\<close> (function calls of other names included), the search is
  not invoked, the model is invoked once and, the telemetry writes succeeding, the
  candidate's parts are appended as an ordinary model turn after the user turn.
\<close>

theorem unrecognized_function_call_falls_through:
  assumes accepted: "trim (textToSend_of c messageText) \<noteq> []" "\<not> isLoading c"
    and logs: "telemetry_writes_succeed env c"
    and prompt: "snd (resolve_systemPrompt env c) = Inr systemPrompt"
    and first: "first_outcome env c (textToSend_of c messageText) systemPrompt = Inr result"
    and cand: "first_candidate result = Some candidate"
    and parts: "content candidate = Some ct" "cc_parts ct = Some ps"
    and unrecognized: "recognized_call ps = None"
  shows "search_invocations (fst (handleSendMessage env c messageText)) = 0
         \<and> model_invocations (fst (handleSendMessage env c messageText)) = 1
         \<and> appended (fst (handleSendMessage env c messageText))
             = [userMessage_of (textToSend_of c messageText),
                model_turn ps (processedCitationMetadata_of candidate)]
         \<and> snd (handleSendMessage env c messageText) = Inr ()"
proof -
  have log: "user_message_log env c messageText = Inr ()"
    using logs by (simp add: user_message_log_def snd_log_ok)
  note tb = turn_body_falls_through [OF logs prompt first cand parts unrecognized]
  show ?thesis
    using tb log
    by (simp add: search_invocations_def model_invocations_def
        handleSendMessage_accepted_calls [OF accepted log]
        fst_handleSendMessage [OF accepted] snd_handleSendMessage [OF accepted]
        fst_guarded_body prologue_obs)
qed

theorem unrecognized_function_call_falls_through_witness:
  "search_invocations (fst (handleSendMessage env_other_call demo_render None)) = 0
   \<and> model_invocations (fst (handleSendMessage env_other_call demo_render None)) = 1
   \<and> appended (fst (handleSendMessage env_other_call demo_render None))
       = [userMessage_of ''Find Huolto-Karhu orders'', model_turn [call_part ''get_weather''] None]"
proof -
  have acc: "trim (textToSend_of demo_render None) \<noteq> []" "\<not> isLoading demo_render"
    by code_simp+
  have t: "textToSend_of demo_render None = ''Find Huolto-Karhu orders''"
    by code_simp
  have logs: "telemetry_writes_succeed env_other_call demo_render"
    by (simp add: telemetry_writes_succeed_def log_if_session_def env_other_call_def scripted_def
        logs_ok_def)
  have prompt: "snd (resolve_systemPrompt env_other_call demo_render)
      = Inr ''You are a procurement assistant.''"
    by code_simp
  have first: "first_outcome env_other_call demo_render (textToSend_of demo_render None)
        ''You are a procurement assistant.'' = Inr (parts_result [call_part ''get_weather''])"
    by code_simp
  have cand: "first_candidate (parts_result [call_part ''get_weather''])
      = Some \<lparr>content = Some \<lparr>cc_parts = Some [call_part ''get_weather'']\<rparr>, citationMetadata = None\<rparr>"
    by code_simp
  have unrec: "recognized_call [call_part ''get_weather''] = None"
    by code_simp
  have md: "processedCitationMetadata_of
      \<lparr>content = Some \<lparr>cc_parts = Some [call_part ''get_weather'']\<rparr>, citationMetadata = None\<rparr> = None"
    by code_simp
  from unrecognized_function_call_falls_through [OF acc logs prompt first cand _ _ unrec,
      of "\<lparr>cc_parts = Some [call_part ''get_weather'']\<rparr>"]
  show ?thesis by (simp add: t md)
qed

text \<open>
  C10 as stated fails: a response that contains a function call of another name and, after
  it, a recognized one, makes the controller invoke the search; the appended turn is the
  follow-up answer, not the candidate's parts.
\<close>

theorem other_function_call_beside_recognized_counterexample:
  "functionCall (call_part ''get_weather'') \<noteq> None
   \<and> first_candidate_parts (parts_result [call_part ''get_weather'', call_part ''search_purchase_orders''])
       = [call_part ''get_weather'', call_part ''search_purchase_orders'']
   \<and> search_invocations (fst (handleSendMessage env_mixed_calls demo_render None)) = 1
   \<and> appended (fst (handleSendMessage env_mixed_calls demo_render None))
       = [userMessage_of ''Find Huolto-Karhu orders'',
          model_turn [text_part ''Found 3 orders from Huolto-Karhu Oy.''] None]"
  by code_simp

subsection \<open>Telemetry and the conversation\<close>

lemma conversation_Nil [simp]: "conversation [] = []"
  and conversation_Cons [simp]:
    "conversation (e # es) = (if is_conversation e then e # conversation es else conversation es)"
  by (simp_all add: conversation_def)

lemma conversation_log [simp]: "conversation (fst (log_if_session env c entry)) = []"
  by (simp add: log_if_session_def conversation_def)

lemma log_without_session [simp]:
  "log_if_session env (c\<lparr>continuousImprovementSessionId := None\<rparr>) entry = ret ()"
  by (simp add: log_if_session_def truthy_def)

lemma conversation_init [simp]: "conversation (fst (initializeContinuousImprovement env c)) = []"
  by (simp add: initializeContinuousImprovement_def comp_simps Let_def conversation_def
      split: option.splits sum.splits)

lemma resolve_without_session [simp]:
  "resolve_systemPrompt env (c\<lparr>continuousImprovementSessionId := None\<rparr>) = resolve_systemPrompt env c"
  by (simp add: resolve_systemPrompt_def split: option.splits)

lemma conversation_resolve [simp]: "conversation (fst (resolve_systemPrompt env c)) = []"
  by (simp add: resolve_systemPrompt_def comp_simps conversation_def
      split: option.splits sum.splits)

lemma frt_without_session:
  assumes logs: "telemetry_writes_succeed env c"
  shows "conversation (fst (function_round_trip env c t sp part fc))
           = conversation (fst (function_round_trip env (c\<lparr>continuousImprovementSessionId := None\<rparr>) t sp part fc))"
    and "snd (function_round_trip env c t sp part fc)
           = snd (function_round_trip env (c\<lparr>continuousImprovementSessionId := None\<rparr>) t sp part fc)"
  by (simp_all add: function_round_trip_def Let_def comp_simps snd_log_ok [OF logs]
      split: sum.splits option.splits)

lemma scan_without_session:
  assumes logs: "telemetry_writes_succeed env c"
  shows "conversation (fst (scan_parts env c t sp ps))
           = conversation (fst (scan_parts env (c\<lparr>continuousImprovementSessionId := None\<rparr>) t sp ps))
         \<and> snd (scan_parts env c t sp ps)
           = snd (scan_parts env (c\<lparr>continuousImprovementSessionId := None\<rparr>) t sp ps)"
  by (induction ps)
    (simp_all add: comp_simps fst_round_trip snd_round_trip frt_without_session [OF logs]
      split: option.splits)

lemma plain_without_session:
  assumes logs: "telemetry_writes_succeed env c"
  shows "conversation (fst (plain_response env c cand))
           = conversation (fst (plain_response env (c\<lparr>continuousImprovementSessionId := None\<rparr>) cand))"
    and "snd (plain_response env c cand)
           = snd (plain_response env (c\<lparr>continuousImprovementSessionId := None\<rparr>) cand)"
  by (simp_all add: plain_response_def Let_def comp_simps snd_log_ok [OF logs])

lemma handle_response_without_session:
  assumes logs: "telemetry_writes_succeed env c"
  shows "conversation (fst (handle_response env c t sp result))
           = conversation (fst (handle_response env (c\<lparr>continuousImprovementSessionId := None\<rparr>) t sp result))
         \<and> snd (handle_response env c t sp result)
           = snd (handle_response env (c\<lparr>continuousImprovementSessionId := None\<rparr>) t sp result)"
proof (cases "first_candidate result")
  case None
  then show ?thesis
    by (auto simp add: handle_response_def first_candidate_def split: option.splits list.splits)
next
  case (Some candidate)
  then obtain resp others where resp: "result_response result = Some resp"
      "candidates resp = Some (candidate # others)"
    by (auto simp add: first_candidate_def split: option.splits list.splits)
  let ?c' = "c\<lparr>continuousImprovementSessionId := None\<rparr>"
  note plain = plain_without_session [OF logs, of candidate]
  show ?thesis
  proof (cases "content candidate")
    case None
    with resp plain show ?thesis by (simp add: handle_response_def comp_simps)
  next
    case ct: (Some ct)
    show ?thesis
    proof (cases "cc_parts ct")
      case None
      with resp ct plain show ?thesis by (simp add: handle_response_def comp_simps)
    next
      case ps: (Some ps)
      from scan_without_session [OF logs, of t sp ps]
      have scan: "conversation (fst (scan_parts env c t sp ps)) = conversation (fst (scan_parts env ?c' t sp ps))"
        "snd (scan_parts env c t sp ps) = snd (scan_parts env ?c' t sp ps)"
        by simp_all
      show ?thesis
      proof (cases "snd (scan_parts env ?c' t sp ps)")
        case (Inl e)
        with resp ct ps scan show ?thesis by (simp add: handle_response_def comp_simps)
      next
        case (Inr returned)
        with resp ct ps scan plain show ?thesis by (simp add: handle_response_def comp_simps)
      qed
    qed
  qed
qed

lemma turn_body_without_session:
  assumes logs: "telemetry_writes_succeed env c"
  shows "conversation (fst (turn_body env c t))
           = conversation (fst (turn_body env (c\<lparr>continuousImprovementSessionId := None\<rparr>) t))"
    and "snd (turn_body env c t)
           = snd (turn_body env (c\<lparr>continuousImprovementSessionId := None\<rparr>) t)"
  using handle_response_without_session [OF logs, of t]
  by (simp_all add: turn_body_def comp_simps split: sum.splits)

lemma guarded_body_without_session:
  assumes logs: "telemetry_writes_succeed env c"
  shows "conversation (fst (guarded_body env c t))
           = conversation (fst (guarded_body env (c\<lparr>continuousImprovementSessionId := None\<rparr>) t))"
  by (simp add: fst_guarded_body turn_body_without_session [OF logs])

lemma conversation_prologue:
  "conversation (prologue env c mt) = [AppendMessage (userMessage_of (textToSend_of c mt))]"
  by (simp add: prologue_def)

text \<open>
  C5 (as amended). When every telemetry write of the turn resolves (none is made when the
  render holds no telemetry session id), nothing propagates out of the controller and the
  conversation, that is the turns appended and the model and search calls made, is the one
  the same turn has with telemetry switched off.
\<close>

theorem successful_telemetry_leaves_conversation_unchanged:
  assumes "telemetry_writes_succeed env c"
  shows "snd (handleSendMessage env c messageText) = Inr ()
         \<and> conversation (fst (handleSendMessage env c messageText))
             = conversation (fst (handleSendMessage env
                 (c\<lparr>continuousImprovementSessionId := None\<rparr>) messageText))"
proof (cases "trim (textToSend_of c messageText) = [] \<or> isLoading c")
  case True
  have "textToSend_of (c\<lparr>continuousImprovementSessionId := None\<rparr>) messageText
      = textToSend_of c messageText"
    by (simp add: textToSend_of_def)
  with True have "trim (textToSend_of (c\<lparr>continuousImprovementSessionId := None\<rparr>) messageText) = []
      \<or> isLoading (c\<lparr>continuousImprovementSessionId := None\<rparr>)"
    by simp
  with True show ?thesis by (simp add: handleSendMessage_rejected)
next
  case False
  let ?c' = "c\<lparr>continuousImprovementSessionId := None\<rparr>"
  have t: "textToSend_of ?c' messageText = textToSend_of c messageText"
    by (simp add: textToSend_of_def)
  from False have acc: "trim (textToSend_of c messageText) \<noteq> []" "\<not> isLoading c"
    by simp_all
  then have acc': "trim (textToSend_of ?c' messageText) \<noteq> []" "\<not> isLoading ?c'"
    by (simp_all add: t)
  have log: "user_message_log env c messageText = Inr ()"
    using assms by (simp add: user_message_log_def snd_log_ok)
  have log': "user_message_log env ?c' messageText = Inr ()"
    by (simp add: user_message_log_def)
  show ?thesis
    using log log' guarded_body_without_session [OF assms, of "textToSend_of c messageText"]
    by (simp add: fst_handleSendMessage [OF acc] fst_handleSendMessage [OF acc']
        snd_handleSendMessage [OF acc] conversation_prologue t)
qed

theorem successful_telemetry_leaves_conversation_unchanged_witness:
  "telemetry_writes_succeed env_round_trip demo_render
   \<and> snd (handleSendMessage env_round_trip demo_render None) = Inr ()
   \<and> conversation (fst (handleSendMessage env_round_trip demo_render None))
       = conversation (fst (handleSendMessage env_round_trip
           (demo_render\<lparr>continuousImprovementSessionId := None\<rparr>) None))
   \<and> telemetry_events (fst (handleSendMessage env_round_trip demo_render None))
       = [''user_message'', ''function_call_triggered'', ''function_call_success'', ''ai_response'']"
proof -
  have logs: "telemetry_writes_succeed env_round_trip demo_render"
    by (simp add: telemetry_writes_succeed_def log_if_session_def env_round_trip_def scripted_def
        logs_ok_def)
  have "telemetry_events (fst (handleSendMessage env_round_trip demo_render None))
       = [''user_message'', ''function_call_triggered'', ''function_call_success'', ''ai_response'']"
    by code_simp
  with logs successful_telemetry_leaves_conversation_unchanged [OF logs, of None]
  show ?thesis by simp
qed

text \<open>
  C5 as stated fails: the controller awaits each write where it stands and has no handler
  for it. A rejected \<open>user_message\<close> write leaves the controller as a rejection, with
  the user turn appended, no model turn and the in-flight flag set; a rejected
  \<open>ai_response\<close> write replaces the answer by the generic error turn.
\<close>

theorem rejected_telemetry_write_counterexample:
  "snd (handleSendMessage env_user_message_log_fails demo_render None) = Inl (Error ''unavailable'')
   \<and> appended (fst (handleSendMessage env_user_message_log_fails demo_render None))
       = [userMessage_of ''Find Huolto-Karhu orders'']
   \<and> isLoading (run (fst (handleSendMessage env_user_message_log_fails demo_render None)) demo_render)
   \<and> appended (fst (handleSendMessage env_ai_response_log_fails demo_render None))
       = [userMessage_of ''Find Huolto-Karhu orders'', generic_error_turn]
   \<and> appended (fst (handleSendMessage env_ai_response_log_fails
         (demo_render\<lparr>continuousImprovementSessionId := None\<rparr>) None))
       = [userMessage_of ''Find Huolto-Karhu orders'',
          model_turn [text_part ''We use three suppliers.''] None]"
  by code_simp

subsection \<open>A reset while the first model call is in flight\<close>

lemma until_model_call_append:
  "model_requests xs = [] \<Longrightarrow> until_model_call (xs @ ys) = xs @ until_model_call ys"
  by (induction xs rule: model_requests.induct) simp_all

lemma after_model_call_append:
  "model_requests xs = [] \<Longrightarrow> after_model_call (xs @ ys) = after_model_call ys"
  by (induction xs rule: model_requests.induct) simp_all

lemma messages_after_reset: "messages (run (fst (handleResetChat env c)) s) = []"
  by (simp add: handleResetChat_def comp_simps run_def split: option.splits sum.splits)

lemma turn_trace_at_model_call:
  assumes "model_requests (fst (handleSendMessage env c mt)) \<noteq> []"
  shows "\<exists>pre m cs rest.
           fst (handleSendMessage env c mt) = pre @ Call_generateContent m cs # rest
           \<and> model_requests pre = []
           \<and> appended pre = [userMessage_of (textToSend_of c mt)]"
proof -
  let ?t = "textToSend_of c mt"
  have acc: "trim ?t \<noteq> []" "\<not> isLoading c"
    using assms handleSendMessage_rejected [of c mt env] by auto
  have log: "user_message_log env c mt = Inr ()"
  proof (cases "user_message_log env c mt")
    case (Inl e)
    with assms show ?thesis by (simp add: fst_handleSendMessage [OF acc] prologue_obs)
  next
    case (Inr u)
    then show ?thesis by simp
  qed
  have tr: "fst (handleSendMessage env c mt) = prologue env c mt @ fst (guarded_body env c ?t)"
    using log by (simp add: fst_handleSendMessage [OF acc])
  obtain sp where prompt: "snd (resolve_systemPrompt env c) = Inr sp"
  proof (cases "snd (resolve_systemPrompt env c)")
    case (Inl e)
    with assms tr turn_body_without_prompt [of env c e ?t] have False
      by (simp add: prologue_obs guarded_body_obs)
    then show ?thesis ..
  next
    case (Inr sp)
    then show ?thesis by (rule that)
  qed
  obtain rest0 where tb: "fst (turn_body env c ?t) =
      fst (resolve_systemPrompt env c)
      @ Call_generateContent (chat_model env) (first_contents sp (history_of (messages c)) ?t) # rest0"
    using prompt by (simp add: turn_body_def comp_simps)
  let ?pre = "prologue env c mt @ fst (resolve_systemPrompt env c)"
  have "fst (handleSendMessage env c mt) =
      ?pre @ Call_generateContent (chat_model env) (first_contents sp (history_of (messages c)) ?t)
        # (rest0 @ (case snd (turn_body env c ?t) of
                      Inl e \<Rightarrow> [AppendMessage generic_error_turn] | Inr a \<Rightarrow> [])
                 @ [SetIsLoading False])"
    by (simp add: tr fst_guarded_body tb)
  moreover have "model_requests ?pre = []" "appended ?pre = [userMessage_of ?t]"
    by (simp_all add: prologue_obs)
  ultimately show ?thesis by blast
qed

text \<open>
  C6 (as amended). For every turn whose first model call is in flight when the chat is
  reset: at that moment the history is the old one with the user turn appended, the reset
  empties it, and when the stale call resolves the turn goes on and appends to the emptied
  history. The history after the reset therefore consists of exactly the turns that the
  stale turn appends after its user turn; nothing is discarded.
\<close>

theorem stale_result_lands_in_reset_history:
  assumes "model_invocations (fst (handleSendMessage env c messageText)) \<noteq> 0"
  shows "messages (run (until_model_call (fst (handleSendMessage env c messageText))) c)
           = messages c @ [userMessage_of (textToSend_of c messageText)]
         \<and> messages (run (fst (handleResetChat env c))
              (run (until_model_call (fst (handleSendMessage env c messageText))) c)) = []
         \<and> appended (fst (handleSendMessage env c messageText))
           = userMessage_of (textToSend_of c messageText)
             # messages (reset_mid_flight env c messageText)"
proof -
  let ?tr = "fst (handleSendMessage env c messageText)"
  from assms have "model_requests ?tr \<noteq> []"
    by (simp add: model_invocations_def)
  from turn_trace_at_model_call [OF this]
  obtain pre m cs rest where tr: "?tr = pre @ Call_generateContent m cs # rest"
    and pre: "model_requests pre = []" "appended pre = [userMessage_of (textToSend_of c messageText)]"
    by blast
  have until: "until_model_call ?tr = pre @ [Call_generateContent m cs]"
    and after: "after_model_call ?tr = rest"
    by (simp_all add: tr until_model_call_append [OF pre(1)] after_model_call_append [OF pre(1)])
  have no_clear: "ClearMessages \<notin> set pre" "ClearMessages \<notin> set rest"
    using handleSendMessage_no_clear [of env c messageText] by (simp_all add: tr)
  have in_flight: "messages (run (until_model_call ?tr) c)
      = messages c @ [userMessage_of (textToSend_of c messageText)]"
    using no_clear(1) by (simp add: until messages_run pre(2))
  have final: "messages (reset_mid_flight env c messageText) = appended rest"
    using no_clear(2)
    by (simp add: reset_mid_flight_def Let_def after messages_run messages_after_reset)
  show ?thesis
    using in_flight final by (simp add: messages_after_reset tr pre(2))
qed

theorem stale_result_lands_in_reset_history_witness:
  "model_invocations (fst (handleSendMessage env_plain demo_render None)) \<noteq> 0
   \<and> appended (fst (handleSendMessage env_plain demo_render None))
       = [userMessage_of ''Find Huolto-Karhu orders'',
          model_turn [text_part ''We use three suppliers.''] None]
   \<and> messages (reset_mid_flight env_plain demo_render None)
       = [model_turn [text_part ''We use three suppliers.''] None]"
proof -
  have calls: "model_invocations (fst (handleSendMessage env_plain demo_render None)) \<noteq> 0"
    by code_simp
  have turn: "appended (fst (handleSendMessage env_plain demo_render None))
       = [userMessage_of ''Find Huolto-Karhu orders'',
          model_turn [text_part ''We use three suppliers.''] None]"
    by code_simp
  from stale_result_lands_in_reset_history [OF calls] turn calls
  show ?thesis by simp
qed

text \<open>
  C6 as stated fails: after a reset during the first model call, the answer of that call
  is the only entry of the history.
\<close>

theorem stale_result_discarded_counterexample:
  "messages (run (fst (handleResetChat env_plain demo_render))
      (run (until_model_call (fst (handleSendMessage env_plain demo_render None))) demo_render)) = []
   \<and> messages (reset_mid_flight env_plain demo_render None)
       = [model_turn [text_part ''We use three suppliers.''] None]"
  by code_simp

subsection \<open>The requests of a round-trip\<close>

lemma frt_requests:
  "model_requests (fst (function_round_trip env c t sp part fc)) = [] \<or>
   (\<exists>u sr. user c = Some u \<and> searchRecords env (uid u) (fc_args fc) = Inr sr \<and>
      model_requests (fst (function_round_trip env c t sp part fc)) =
        [(chat_model env, followUp_contents sp (history_of (messages c)) t part
            (functionResponse_turn (fc_name fc) sr))])"
  by (auto simp add: function_round_trip_def Let_def comp_simps split: sum.splits option.splits)

lemma scan_requests:
  "model_requests (fst (scan_parts env c t sp ps)) = [] \<or>
   (\<exists>part fc u sr. recognized_part ps = Some part \<and> functionCall part = Some fc \<and>
      user c = Some u \<and> searchRecords env (uid u) (fc_args fc) = Inr sr \<and>
      model_requests (fst (scan_parts env c t sp ps)) =
        [(chat_model env, followUp_contents sp (history_of (messages c)) t part
            (functionResponse_turn (fc_name fc) sr))])"
proof (induction ps)
  case Nil
  show ?case by simp
next
  case (Cons part rest)
  show ?case
  proof (cases "functionCall part")
    case None
    with Cons show ?thesis by simp
  next
    case (Some fc)
    show ?thesis
    proof (cases "fc_name fc = ''search_purchase_orders''")
      case False
      with Some Cons show ?thesis by simp
    next
      case True
      from frt_requests [of env c t sp part fc] True Some show ?thesis
        by (auto simp add: comp_simps fst_round_trip split: sum.splits)
    qed
  qed
qed

lemma turn_body_requests:
  assumes two: "length (model_requests (fst (turn_body env c t))) = 2"
  shows "\<exists>sp result part fc u sr.
           snd (resolve_systemPrompt env c) = Inr sp
           \<and> first_outcome env c t sp = Inr result
           \<and> recognized_part (first_candidate_parts result) = Some part
           \<and> functionCall part = Some fc
           \<and> user c = Some u
           \<and> searchRecords env (uid u) (fc_args fc) = Inr sr
           \<and> model_requests (fst (turn_body env c t)) =
               [(chat_model env, first_contents sp (history_of (messages c)) t),
                (chat_model env, first_contents sp (history_of (messages c)) t
                   @ [\<lparr>c_role = Model, c_parts = [part]\<rparr>,
                      functionResponse_turn (fc_name fc) sr])]"
proof (cases "snd (resolve_systemPrompt env c)")
  case (Inl e)
  with two turn_body_without_prompt [of env c e t] show ?thesis by simp
next
  case (Inr sp)
  note calls = turn_body_calls(2) [OF Inr, of t]
  show ?thesis
  proof (cases "first_outcome env c t sp")
    case (Inl e)
    with two calls show ?thesis by simp
  next
    case result: (Inr result)
    with two calls have "model_requests (fst (scan_parts env c t sp (first_candidate_parts result))) \<noteq> []"
      by auto
    with scan_requests [of env c t sp "first_candidate_parts result"]
    obtain part fc u sr where "recognized_part (first_candidate_parts result) = Some part"
        "functionCall part = Some fc" "user c = Some u"
        "searchRecords env (uid u) (fc_args fc) = Inr sr"
        "model_requests (fst (scan_parts env c t sp (first_candidate_parts result))) =
          [(chat_model env, followUp_contents sp (history_of (messages c)) t part
              (functionResponse_turn (fc_name fc) sr))]"
      by blast
    with Inr result calls show ?thesis
      by (simp add: followUp_contents_eq)
  qed
qed

text \<open>
  C3 (as amended). Every model invocation of a turn, the follow-up of a function-call
  round-trip included, is made on the one model handle of the turn, which carries the tool
  schema. A turn makes at most two model invocations and at most one search invocation. When
  it makes two, the first response carried a recognized function call and the search
  returned a result, and the second request is the first request followed by a model turn
  holding that very function-call part and by the function-result turn built from the name
  of the call and from what the search returned. The second response is not searched for
  function calls: no third invocation and no second search occur.
\<close>

theorem second_invocation_keeps_tool_schema:
  "(\<forall>req \<in> set (model_requests (fst (handleSendMessage env c messageText))).
       gm_tools (fst req) = [search_tool])
   \<and> model_invocations (fst (handleSendMessage env c messageText)) \<le> 2
   \<and> search_invocations (fst (handleSendMessage env c messageText)) \<le> 1
   \<and> (model_invocations (fst (handleSendMessage env c messageText)) = 2 \<longrightarrow>
        (\<exists>systemPrompt result part fc u searchResult.
           snd (resolve_systemPrompt env c) = Inr systemPrompt
           \<and> first_outcome env c (textToSend_of c messageText) systemPrompt = Inr result
           \<and> recognized_part (first_candidate_parts result) = Some part
           \<and> functionCall part = Some fc
           \<and> user c = Some u
           \<and> searchRecords env (uid u) (fc_args fc) = Inr searchResult
           \<and> model_requests (fst (handleSendMessage env c messageText)) =
               [(chat_model env,
                 first_contents systemPrompt (history_of (messages c)) (textToSend_of c messageText)),
                (chat_model env,
                 first_contents systemPrompt (history_of (messages c)) (textToSend_of c messageText)
                 @ [\<lparr>c_role = Model, c_parts = [part]\<rparr>,
                    functionResponse_turn (fc_name fc) searchResult])]))"
proof -
  let ?tr = "fst (handleSendMessage env c messageText)"
  let ?t = "textToSend_of c messageText"
  let ?tb = "fst (turn_body env c ?t)"
  have tools: "gm_tools (chat_model env) = [search_tool]"
    by (simp add: chat_model_def search_tool_def)
  from handleSendMessage_models [of env c messageText]
  have m: "model_requests ?tr = [] \<or> model_requests ?tr = model_requests ?tb" .
  from handleSendMessage_searches [of env c messageText]
  have s: "search_calls ?tr = [] \<or> search_calls ?tr = search_calls ?tb" .
  have s_le: "search_invocations ?tr \<le> 1"
    using s turn_body_search_le [of env c ?t]
    by (auto simp add: search_invocations_def)
  have handle: "\<forall>req \<in> set (model_requests ?tr). gm_tools (fst req) = [search_tool]"
    using m turn_body_models [of env c ?t] tools by auto
  have m_le: "model_invocations ?tr \<le> 2"
    using m turn_body_models [of env c ?t] by (auto simp add: model_invocations_def)
  have requests: "\<exists>systemPrompt result part fc u searchResult.
           snd (resolve_systemPrompt env c) = Inr systemPrompt
           \<and> first_outcome env c ?t systemPrompt = Inr result
           \<and> recognized_part (first_candidate_parts result) = Some part
           \<and> functionCall part = Some fc
           \<and> user c = Some u
           \<and> searchRecords env (uid u) (fc_args fc) = Inr searchResult
           \<and> model_requests ?tr =
               [(chat_model env, first_contents systemPrompt (history_of (messages c)) ?t),
                (chat_model env, first_contents systemPrompt (history_of (messages c)) ?t
                 @ [\<lparr>c_role = Model, c_parts = [part]\<rparr>,
                    functionResponse_turn (fc_name fc) searchResult])]"
    if two: "model_invocations ?tr = 2"
  proof -
    from two m have same: "model_requests ?tr = model_requests ?tb"
      by (auto simp add: model_invocations_def)
    with two have "length (model_requests ?tb) = 2"
      by (simp add: model_invocations_def)
    from turn_body_requests [OF this] same show ?thesis by simp
  qed
  from handle m_le s_le requests show ?thesis by blast
qed

theorem second_invocation_keeps_tool_schema_witness:
  "model_invocations (fst (handleSendMessage env_round_trip demo_render None)) = 2
   \<and> model_requests (fst (handleSendMessage env_round_trip demo_render None)) ! 1
       = (chat_model env_round_trip,
          first_contents ''You are a procurement assistant.'' (history_of (messages demo_render))
            ''Find Huolto-Karhu orders''
          @ [\<lparr>c_role = Model, c_parts = [call_part ''search_purchase_orders'']\<rparr>,
             functionResponse_turn ''search_purchase_orders'' three_records])
   \<and> gm_tools (fst (model_requests (fst (handleSendMessage env_round_trip demo_render None)) ! 1))
       = [search_tool]"
proof -
  let ?tr = "fst (handleSendMessage env_round_trip demo_render None)"
  have two: "model_invocations ?tr = 2"
    by code_simp
  have t: "textToSend_of demo_render None = ''Find Huolto-Karhu orders''"
    by code_simp
  have prompt: "snd (resolve_systemPrompt env_round_trip demo_render)
      = Inr ''You are a procurement assistant.''"
    by code_simp
  have first: "first_outcome env_round_trip demo_render ''Find Huolto-Karhu orders''
        ''You are a procurement assistant.''
      = Inr (parts_result [call_part ''search_purchase_orders''])"
    by code_simp
  have part: "recognized_part (first_candidate_parts (parts_result [call_part ''search_purchase_orders'']))
      = Some (call_part ''search_purchase_orders'')"
    by code_simp
  have fc: "functionCall (call_part ''search_purchase_orders'')
      = Some \<lparr>fc_name = ''search_purchase_orders'', fc_args = [(''supplierName'', ''Huolto-Karhu'')]\<rparr>"
    by code_simp
  have usr: "user demo_render = Some demo_user"
    by (simp add: demo_render_def)
  have search: "searchRecords env_round_trip (uid demo_user) [(''supplierName'', ''Huolto-Karhu'')]
      = Inr three_records"
    by (simp add: env_round_trip_def scripted_def)
  from second_invocation_keeps_tool_schema [of env_round_trip demo_render None] two
  obtain sp result p f u sr where
      "snd (resolve_systemPrompt env_round_trip demo_render) = Inr sp"
      "first_outcome env_round_trip demo_render (textToSend_of demo_render None) sp = Inr result"
      "recognized_part (first_candidate_parts result) = Some p"
      "functionCall p = Some f" "user demo_render = Some u"
      "searchRecords env_round_trip (uid u) (fc_args f) = Inr sr"
      and reqs: "model_requests ?tr =
        [(chat_model env_round_trip,
          first_contents sp (history_of (messages demo_render)) (textToSend_of demo_render None)),
         (chat_model env_round_trip,
          first_contents sp (history_of (messages demo_render)) (textToSend_of demo_render None)
          @ [\<lparr>c_role = Model, c_parts = [p]\<rparr>, functionResponse_turn (fc_name f) sr])]"
    by blast
  with t prompt first part fc usr search
  have "sp = ''You are a procurement assistant.''" "p = call_part ''search_purchase_orders''"
    "fc_name f = ''search_purchase_orders''" "sr = three_records"
    by auto
  with reqs t two show ?thesis
    by (simp add: chat_model_def search_tool_def)
qed

text \<open>
  C3 as stated fails: in a round-trip the follow-up invocation is made with the tool
  schema attached.
\<close>

theorem second_invocation_without_schema_counterexample:
  "map (gm_tools \<circ> fst) (model_requests (fst (handleSendMessage env_round_trip demo_render None)))
     = [[search_tool], [search_tool]]
   \<and> functionDeclarations search_tool \<noteq> []"
  by code_simp

end
